theory Spec2Isabelle
  imports
    Complex_Main
    "HOL-Library.AList"
    "HOL-Library.Char_ord"
    "HOL-Library.List_Lexorder"
    "HOL-Library.Multiset"
begin

section \<open>Tables, rules and errors\<close>

text \<open>
  A cached table is a data frame: an ordered list of column names and its rows, every row
  holding one cell per column. Cells are the scalars a loaded file can hold.
\<close>

datatype cell = IntV int | StrV string | NoneV

record data_frame =
  columns :: "string list"
  rows :: "cell list list"

text \<open>
  \<^verbatim>\<open>GraphElement\<close> and \<^verbatim>\<open>GraphConfig\<close> of \<^verbatim>\<open>app/models/graph_config.py\<close>.
\<close>

record graph_element =
  label :: string
  properties :: "string list"

record graph_config =
  source :: graph_element
  target :: graph_element
  rels :: graph_element

text \<open>
  The dictionaries built by \<^verbatim>\<open>graph_element_props\<close> and \<^verbatim>\<open>source_to_target_rels\<close>:
  a dictionary is an association list in insertion order.
\<close>

type_synonym props_dict = "(string \<times> cell) list"

datatype element = Element (elem_label: string) (elem_properties: props_dict)

datatype edge = Edge (edge_source: element) (edge_target: element) (edge_rels: element)

text \<open>
  Every raise of the projection code is a value. \<open>ColumnsNotExist\<close> is the
  \<^verbatim>\<open>ValueError\<close> of \<^verbatim>\<open>check_cols_exist_in_db\<close>, \<open>NoDataFrameFound\<close> the one of
  \<^verbatim>\<open>find_data_frame\<close> (it carries the requested columns), \<open>ValueErrorOf e\<close> is
  \<^verbatim>\<open>ValueError(e)\<close> as \<^verbatim>\<open>graph_element_props\<close> re-raises, \<open>KeyError\<close> is what selecting
  absent columns raises, \<open>IndexError\<close> what \<^verbatim>\<open>[0]\<close> on an empty list raises, and
  \<open>LibraryError\<close> stands for whatever the data-frame library raises in a join.
\<close>

datatype error =
    ColumnsNotExist
  | NoDataFrameFound "string list"
  | ValueErrorOf error
  | KeyError "string list"
  | IndexError
  | LibraryError string

fun is_ValueError :: "error \<Rightarrow> bool" where
  "is_ValueError ColumnsNotExist = True"
| "is_ValueError (NoDataFrameFound ps) = True"
| "is_ValueError (ValueErrorOf e) = True"
| "is_ValueError (KeyError cs) = False"
| "is_ValueError IndexError = False"
| "is_ValueError (LibraryError s) = False"

section \<open>Column check and column selection\<close>

text \<open>
  \<^verbatim>\<open>check_cols_exist_in_db\<close> (\<^verbatim>\<open>app/utils/data_manip.py\<close>): one pass over the requested
  columns collecting those present and a note for each; it raises only when none is present.
\<close>

definition check_step ::
  "string list \<Rightarrow> string \<Rightarrow> string list \<times> (string \<times> string) list
    \<Rightarrow> string list \<times> (string \<times> string) list" where
  "check_step cs col st =
     (if col \<in> set cs
      then (fst st @ [col], AList.update col ''exist in data columns'' (snd st))
      else (fst st, AList.update col ''not in data columns'' (snd st)))"

definition check_cols_exist_in_db ::
  "data_frame \<Rightarrow> string list \<Rightarrow> error + (string list \<times> (string \<times> string) list)" where
  "check_cols_exist_in_db data cols =
     (let r = fold (check_step (columns data)) cols ([], [])
      in if fst r \<noteq> [] then Inr r else Inl ColumnsNotExist)"

text \<open>
  \<^verbatim>\<open>df[cols]\<close>: the frame narrowed to the listed columns in the listed order; a column the
  frame lacks is a \<^verbatim>\<open>KeyError\<close>. The column names of a table are taken to be distinct and
  its rows to have one cell per column; for a name that occurs twice pandas would keep both
  columns, which is not modelled, and the general statements below assume distinct names.
\<close>

definition cell_at :: "string list \<Rightarrow> cell list \<Rightarrow> string \<Rightarrow> cell" where
  "cell_at cs r c = (case map_of (zip cs r) c of Some v \<Rightarrow> v | None \<Rightarrow> NoneV)"

definition getitem :: "data_frame \<Rightarrow> string list \<Rightarrow> error + data_frame" where
  "getitem df cols =
     (if set cols \<subseteq> set (columns df)
      then Inr \<lparr>columns = cols,
                rows = map (\<lambda>r. map (cell_at (columns df) r) cols) (rows df)\<rparr>
      else Inl (KeyError (filter (\<lambda>c. c \<notin> set (columns df)) cols)))"

text \<open>
  \<^verbatim>\<open>df.to_dict(orient="records")\<close>: one dictionary per row, keyed by column name.
\<close>

definition dict_of :: "(string \<times> cell) list \<Rightarrow> props_dict" where
  "dict_of items = fold (\<lambda>kv d. AList.update (fst kv) (snd kv) d) items []"

definition to_dict_records :: "data_frame \<Rightarrow> props_dict list" where
  "to_dict_records df = map (\<lambda>r. dict_of (zip (columns df) r)) (rows df)"

section \<open>The resolver\<close>

text \<open>
  \<^verbatim>\<open>find_data_frame\<close> (\<^verbatim>\<open>app/services/neo4j/ingest.py\<close>): the tables in the mapping's
  iteration order; a \<^verbatim>\<open>ValueError\<close> of the column check moves on to the next table, any
  other error propagates.
\<close>

fun find_data_frame ::
  "(string \<times> data_frame) list \<Rightarrow> string list \<Rightarrow> error + (string \<times> data_frame)" where
  "find_data_frame [] props = Inl (NoDataFrameFound props)"
| "find_data_frame ((df_name, df) # rest) props =
     (case check_cols_exist_in_db df props of
        Inl e \<Rightarrow> (if is_ValueError e then find_data_frame rest props else Inl e)
      | Inr (exist_cols, info) \<Rightarrow>
          (case getitem df exist_cols of
             Inl e \<Rightarrow> (if is_ValueError e then find_data_frame rest props else Inl e)
           | Inr narrowed \<Rightarrow> Inr (df_name, narrowed)))"

section \<open>Projection\<close>

text \<open>
  The synthetic id of \<^verbatim>\<open>graph_element_props\<close>:
  \<^verbatim>\<open>hashlib.sha1(f"{label}:{sorted(props.items())}".encode()).hexdigest()\<close>.
  The digest \<open>sha1\<close> and Python's rendering \<open>repr\<close> of a list of pairs are library
  functions and stay parameters. The keys of a dictionary are distinct, so sorting the
  items compares keys only.
\<close>

definition raw_key ::
  "(props_dict \<Rightarrow> string) \<Rightarrow> string \<Rightarrow> props_dict \<Rightarrow> string" where
  "raw_key repr lbl props = lbl @ '':'' @ repr (sort_key fst props)"

definition element_id ::
  "(string \<Rightarrow> string) \<Rightarrow> (props_dict \<Rightarrow> string) \<Rightarrow> string \<Rightarrow> props_dict \<Rightarrow> string" where
  "element_id sha1 repr lbl props = sha1 (raw_key repr lbl props)"

definition graph_element_props ::
  "(string \<Rightarrow> string) \<Rightarrow> (props_dict \<Rightarrow> string) \<Rightarrow> data_frame \<Rightarrow> string \<Rightarrow> string list
    \<Rightarrow> error + element list" where
  "graph_element_props sha1 repr data lbl props =
     (case check_cols_exist_in_db data props of
        Inl e \<Rightarrow> Inl (ValueErrorOf e)
      | Inr (graph_props, info) \<Rightarrow>
          (case getitem data graph_props of
             Inl e \<Rightarrow> Inl (ValueErrorOf e)
           | Inr graph_element_df \<Rightarrow>
               Inr (map (\<lambda>d. Element lbl
                               (AList.update ''id'' (StrV (element_id sha1 repr lbl d)) d))
                        (to_dict_records graph_element_df))))"

definition source_to_target_rels ::
  "(string \<Rightarrow> string) \<Rightarrow> (props_dict \<Rightarrow> string) \<Rightarrow> data_frame \<Rightarrow> graph_config
    \<Rightarrow> error + edge list" where
  "source_to_target_rels sha1 repr data gc =
     (case graph_element_props sha1 repr data (label (source gc)) (properties (source gc)) of
        Inl e \<Rightarrow> Inl e
      | Inr source_props_list \<Rightarrow>
     (case graph_element_props sha1 repr data (label (target gc)) (properties (target gc)) of
        Inl e \<Rightarrow> Inl e
      | Inr target_props_list \<Rightarrow>
     (case graph_element_props sha1 repr data (label (rels gc)) (properties (rels gc)) of
        Inl e \<Rightarrow> Inl e
      | Inr rels_props_list \<Rightarrow>
          Inr (map (\<lambda>(s, t, r). Edge s t r)
                 (zip source_props_list (zip target_props_list rels_props_list))))))"

text \<open>
  \<^verbatim>\<open>create_data_frame_from_props_block\<close>: three independent resolutions, then two joins
  with \<^verbatim>\<open>how="right"\<close>, each on the columns the two frames at hand have in common, then
  \<^verbatim>\<open>collect\<close>. The join and \<^verbatim>\<open>collect\<close> belong to the data-frame library: \<open>join_right\<close>
  takes the two frames and the key columns, and either may raise.
\<close>

definition create_data_frame_from_props_block ::
  "(data_frame \<Rightarrow> data_frame \<Rightarrow> string set \<Rightarrow> error + data_frame)
    \<Rightarrow> (data_frame \<Rightarrow> error + data_frame)
    \<Rightarrow> (string \<times> data_frame) list \<Rightarrow> graph_config \<Rightarrow> error + data_frame" where
  "create_data_frame_from_props_block join_right collect data_dico props_block =
     (case find_data_frame data_dico (properties (source props_block)) of
        Inl e \<Rightarrow> Inl e
      | Inr (n1, source_df) \<Rightarrow>
     (case find_data_frame data_dico (properties (target props_block)) of
        Inl e \<Rightarrow> Inl e
      | Inr (n2, target_df) \<Rightarrow>
     (case find_data_frame data_dico (properties (rels props_block)) of
        Inl e \<Rightarrow> Inl e
      | Inr (n3, rels_df) \<Rightarrow>
     (case join_right source_df target_df
             (set (columns source_df) \<inter> set (columns target_df)) of
        Inl e \<Rightarrow> Inl e
      | Inr st_df \<Rightarrow>
     (case join_right st_df rels_df (set (columns st_df) \<inter> set (columns rels_df)) of
        Inl e \<Rightarrow> Inl e
      | Inr str_df \<Rightarrow> collect str_df)))))"

text \<open>
  \<^verbatim>\<open>create_graph_api\<close>: the loop over the rules extends one list and stops at the first
  error. With more than one table every rule goes through
  \<^verbatim>\<open>create_data_frame_from_props_block\<close>; otherwise the first table of the mapping is
  taken (\<^verbatim>\<open>list(data_dico.values())[0]\<close>, an \<^verbatim>\<open>IndexError\<close> on an empty mapping).
\<close>

fun extend_all ::
  "(graph_config \<Rightarrow> error + edge list) \<Rightarrow> graph_config list \<Rightarrow> edge list
    \<Rightarrow> error + edge list" where
  "extend_all f [] full_graph_elements = Inr full_graph_elements"
| "extend_all f (g # gs) full_graph_elements =
     (case f g of
        Inl e \<Rightarrow> Inl e
      | Inr es \<Rightarrow> extend_all f gs (full_graph_elements @ es))"

definition create_graph_api ::
  "(string \<Rightarrow> string) \<Rightarrow> (props_dict \<Rightarrow> string)
    \<Rightarrow> (data_frame \<Rightarrow> data_frame \<Rightarrow> string set \<Rightarrow> error + data_frame)
    \<Rightarrow> (data_frame \<Rightarrow> error + data_frame)
    \<Rightarrow> graph_config list \<Rightarrow> (string \<times> data_frame) list \<Rightarrow> error + edge list" where
  "create_graph_api sha1 repr join_right collect graph_config_list data_dico =
     (if length data_dico > 1
      then extend_all
             (\<lambda>gc. case create_data_frame_from_props_block join_right collect data_dico gc of
                      Inl e \<Rightarrow> Inl e
                    | Inr data \<Rightarrow> source_to_target_rels sha1 repr data gc)
             graph_config_list []
      else (case map snd data_dico of
              [] \<Rightarrow> Inl IndexError
            | data # others \<Rightarrow>
                extend_all (\<lambda>gc. source_to_target_rels sha1 repr data gc)
                  graph_config_list []))"

text \<open>The property \<^verbatim>\<open>id\<close> of a record.\<close>

definition id_of :: "element \<Rightarrow> cell option" where
  "id_of e = map_of (elem_properties e) ''id''"

section \<open>The bulk writer\<close>

text \<open>
  \<^verbatim>\<open>_create_batch\<close> and \<^verbatim>\<open>Neo4jGraphCreation.create_graph_data\<close>
  (\<^verbatim>\<open>app/services/neo4j/database.py\<close>). The graph store is a state \<open>'s\<close>; one
  \<^verbatim>\<open>session.run\<close> of the batch query either raises (the text of the exception) or
  yields the store with the batch written, and a run that raises leaves the store as it
  was. The elapsed wall time of the statistics is left out.
\<close>

record cfg_data =
  source_label :: string
  source_props :: props_dict
  target_label :: string
  target_props :: props_dict
  rel_label :: string
  rel_props :: props_dict

definition cfg_of :: "edge \<Rightarrow> cfg_data" where
  "cfg_of cfg =
     \<lparr>source_label = elem_label (edge_source cfg),
      source_props = elem_properties (edge_source cfg),
      target_label = elem_label (edge_target cfg),
      target_props = elem_properties (edge_target cfg),
      rel_label = elem_label (edge_rels cfg),
      rel_props = elem_properties (edge_rels cfg)\<rparr>"

datatype detail = DStr string | DInt int

datatype write_error =
    GraphCreationError (message: string) (details: "(string \<times> detail) list")
  | RangeStepZero

fun str_of :: "write_error \<Rightarrow> string" where
  "str_of (GraphCreationError m d) = m"
| "str_of RangeStepZero = ''range() arg 3 must not be zero''"

record stats =
  configs_processed :: nat
  batches :: nat

definition create_batch ::
  "('s \<Rightarrow> cfg_data list \<Rightarrow> string + 's) \<Rightarrow> 's \<Rightarrow> edge list \<Rightarrow> string + 's" where
  "create_batch run s batch = (if batch = [] then Inr s else run s (map cfg_of batch))"

text \<open>Decimal rendering of a batch index inside the f-string.\<close>

function show_nat :: "nat \<Rightarrow> string" where
  "show_nat n =
     (if n < 10 then [''0123456789'' ! n]
      else show_nat (n div 10) @ [''0123456789'' ! (n mod 10)])"
  by pat_completeness auto
termination
  by (relation "measure (\<lambda>n. n)") auto

declare show_nat.simps [simp del]

text \<open>
  \<^verbatim>\<open>[graph_config_list[i:i + batch_size] for i in range(0, total_configs, batch_size)]\<close>;
  a negative step gives an empty range.
\<close>

definition split_batches :: "'a list \<Rightarrow> int \<Rightarrow> 'a list list" where
  "split_batches xs batch_size =
     (if batch_size \<le> 0 then []
      else map (\<lambda>k. take (nat batch_size) (drop (k * nat batch_size) xs))
             [0 ..< (length xs + nat batch_size - 1) div nat batch_size])"

text \<open>The loop \<^verbatim>\<open>for batch_idx, batch in enumerate(batches, 1)\<close>.\<close>

fun process_batches ::
  "('s \<Rightarrow> cfg_data list \<Rightarrow> string + 's) \<Rightarrow> nat \<Rightarrow> edge list list \<Rightarrow> 's
    \<Rightarrow> (write_error + unit) \<times> 's" where
  "process_batches run batch_idx [] s = (Inr (), s)"
| "process_batches run batch_idx (batch # remaining) s =
     (case create_batch run s batch of
        Inl e \<Rightarrow>
          (Inl (GraphCreationError (''Failed to process batch '' @ show_nat batch_idx)
                  [(''error'', DStr e), (''batch_size'', DInt (int (length batch)))]), s)
      | Inr s' \<Rightarrow> process_batches run (Suc batch_idx) remaining s')"

definition create_graph_data ::
  "('s \<Rightarrow> cfg_data list \<Rightarrow> string + 's) \<Rightarrow> int \<Rightarrow> int option \<Rightarrow> edge list \<Rightarrow> 's
    \<Rightarrow> (write_error + stats) \<times> 's" where
  "create_graph_data run self_batch_size batch_size graph_config_list s =
     (let total_configs = length graph_config_list in
      if total_configs = 0
      then (Inl (GraphCreationError ''Empty graph configuration list'' []), s)
      else
        let bsz = (case batch_size of
                     None \<Rightarrow> self_batch_size
                   | Some b \<Rightarrow> if b = 0 then self_batch_size else b)
        in if bsz = 0 then (Inl RangeStepZero, s)
           else
             let bs = split_batches graph_config_list bsz in
             (case process_batches run 1 bs s of
                (Inl e, s') \<Rightarrow>
                  (Inl (GraphCreationError ''Failed to create graph''
                          [(''error'', DStr (str_of e)),
                           (''configs'', DInt (int total_configs))]), s')
              | (Inr u, s') \<Rightarrow>
                  (Inr \<lparr>configs_processed = total_configs, batches = length bs\<rparr>, s')))"

text \<open>
  The store after the given batches have been written one after the other, for stating
  what a failed write leaves behind.
\<close>

fun commit_all ::
  "('s \<Rightarrow> cfg_data list \<Rightarrow> string + 's) \<Rightarrow> 's \<Rightarrow> edge list list \<Rightarrow> string + 's" where
  "commit_all run s [] = Inr s"
| "commit_all run s (b # bs) =
     (case create_batch run s b of Inl e \<Rightarrow> Inl e | Inr s' \<Rightarrow> commit_all run s' bs)"

section \<open>The session manager\<close>

text \<open>
  \<^verbatim>\<open>SessionManager\<close> (\<^verbatim>\<open>app/services/session_manager2.py\<close>). The state is the
  in-memory dictionary \<^verbatim>\<open>_sessions\<close> and the session files of the cache directory, keyed
  by session id; a file is a pickled session or unreadable. \<open>locked\<close> lists the ids whose
  file cannot be removed (\<^verbatim>\<open>unlink\<close> raises), \<open>writable\<close> says whether a session file
  can be written. The cache directory is taken to exist. In the lookups that come first the
  clock is read once and passed as \<open>now\<close>; they are followed by the same lookups with every
  reading of the clock told apart, and by the listing.
\<close>

record table_data =
  table_name :: string
  td_columns :: "string list"
  td_total_rows :: nat
  td_total_columns :: nat
  preview :: "props_dict list option"

record session_data =
  session_id :: string
  created_at :: real
  source_type :: string
  sd_table_data :: "(string \<times> table_data) list"
  dataframe_count :: nat
  total_rows :: nat
  dataframes :: "(string \<times> data_frame) list option"

datatype stored = Pickled session_data | Corrupt

record session_manager =
  session_timeout :: real
  sessions :: "(string \<times> session_data) list"
  files :: "(string \<times> stored) list"
  locked :: "string list"
  writable :: bool

datatype sm_error = RuntimeError string

definition delete_session :: "string \<Rightarrow> session_manager \<Rightarrow> bool \<times> session_manager" where
  "delete_session sid sm =
     (let sm1 = sm\<lparr>sessions := AList.delete sid (sessions sm)\<rparr> in
      if map_of (files sm1) sid \<noteq> None
      then (if sid \<in> set (locked sm1) then (False, sm1)
            else (True, sm1\<lparr>files := AList.delete sid (files sm1)\<rparr>))
      else (True, sm1))"

definition load_session_metadata ::
  "real \<Rightarrow> string \<Rightarrow> session_manager \<Rightarrow> session_data option \<times> session_manager" where
  "load_session_metadata now sid sm =
     (case map_of (files sm) sid of
        None \<Rightarrow> (None, sm)
      | Some Corrupt \<Rightarrow> (None, sm)
      | Some (Pickled sd) \<Rightarrow>
          if now - created_at sd > session_timeout sm
          then (None, snd (delete_session sid sm))
          else (Some sd, sm))"

definition save_session_metadata ::
  "string \<Rightarrow> session_data \<Rightarrow> session_manager \<Rightarrow> sm_error + session_manager" where
  "save_session_metadata sid sd sm =
     (if writable sm then Inr (sm\<lparr>files := AList.update sid (Pickled sd) (files sm)\<rparr>)
      else Inl (RuntimeError ''Failed to save session data''))"

text \<open>The dictionary \<^verbatim>\<open>session_data\<close> that \<^verbatim>\<open>create_session\<close> builds.\<close>

definition session_record ::
  "real \<Rightarrow> string \<Rightarrow> (string \<times> data_frame) list \<Rightarrow> (string \<times> table_data) list \<Rightarrow> string
    \<Rightarrow> session_data" where
  "session_record now sid dfs td src =
     \<lparr>session_id = sid, created_at = now, source_type = src, sd_table_data = td,
      dataframe_count = length dfs,
      total_rows = sum_list (map (\<lambda>p. length (rows (snd p))) dfs),
      dataframes = Some dfs\<rparr>"

definition create_session ::
  "real \<Rightarrow> string \<Rightarrow> (string \<times> data_frame) list \<Rightarrow> (string \<times> table_data) list \<Rightarrow> string
    \<Rightarrow> session_manager \<Rightarrow> sm_error + (string \<times> session_manager)" where
  "create_session now sid dfs td src sm =
     (let sd = session_record now sid dfs td src
      in case save_session_metadata sid sd sm of
           Inl e \<Rightarrow> Inl e
         | Inr sm1 \<Rightarrow> Inr (sid, sm1\<lparr>sessions := AList.update sid sd (sessions sm1)\<rparr>))"

definition load_from_disk ::
  "real \<Rightarrow> string \<Rightarrow> session_manager \<Rightarrow> session_data option \<times> session_manager" where
  "load_from_disk now sid sm =
     (case load_session_metadata now sid sm of
        (Some sd, sm1) \<Rightarrow> (Some sd, sm1\<lparr>sessions := AList.update sid sd (sessions sm1)\<rparr>)
      | (None, sm1) \<Rightarrow> (None, sm1))"

definition get_session ::
  "real \<Rightarrow> string \<Rightarrow> session_manager \<Rightarrow> session_data option \<times> session_manager" where
  "get_session now sid sm =
     (case map_of (sessions sm) sid of
        Some sd \<Rightarrow>
          if now - created_at sd \<le> session_timeout sm then (Some sd, sm)
          else load_from_disk now sid (sm\<lparr>sessions := AList.delete sid (sessions sm)\<rparr>)
      | None \<Rightarrow> load_from_disk now sid sm)"

definition get_dataframes ::
  "real \<Rightarrow> string \<Rightarrow> session_manager
    \<Rightarrow> (string \<times> data_frame) list option \<times> session_manager" where
  "get_dataframes now sid sm =
     (case get_session now sid sm of
        (Some sd, sm1) \<Rightarrow> (dataframes sd, sm1)
      | (None, sm1) \<Rightarrow> (None, sm1))"

text \<open>The metadata without the tables: the copy with the key \<^verbatim>\<open>dataframes\<close> popped.\<close>

definition get_session_info ::
  "real \<Rightarrow> string \<Rightarrow> session_manager \<Rightarrow> session_data option \<times> session_manager" where
  "get_session_info now sid sm =
     (case get_session now sid sm of
        (Some sd, sm1) \<Rightarrow> (Some (sd\<lparr>dataframes := None\<rparr>), sm1)
      | (None, sm1) \<Rightarrow> (None, sm1))"

text \<open>A session is evicted when neither the memory nor the cache directory holds it.\<close>

definition evicted :: "string \<Rightarrow> session_manager \<Rightarrow> bool" where
  "evicted sid sm \<longleftrightarrow> map_of (sessions sm) sid = None \<and> map_of (files sm) sid = None"

text \<open>
  The same lookups with every call of \<^verbatim>\<open>time.time()\<close> taken from a sequence of readings:
  reading \<open>n\<close> is the next one, and every operation returns the number of the reading that
  follows its own. \<^verbatim>\<open>get_session\<close> reads the clock for the copy in memory, and
  \<^verbatim>\<open>_load_session_metadata\<close> reads it again once the file has been unpickled.
\<close>

type_synonym clock = "nat \<Rightarrow> real"

definition load_session_metadata_c ::
  "clock \<Rightarrow> nat \<Rightarrow> string \<Rightarrow> session_manager
    \<Rightarrow> session_data option \<times> session_manager \<times> nat" where
  "load_session_metadata_c clock n sid sm =
     (case map_of (files sm) sid of
        None \<Rightarrow> (None, sm, n)
      | Some Corrupt \<Rightarrow> (None, sm, n)
      | Some (Pickled sd) \<Rightarrow>
          if clock n - created_at sd > session_timeout sm
          then (None, snd (delete_session sid sm), Suc n)
          else (Some sd, sm, Suc n))"

definition load_from_disk_c ::
  "clock \<Rightarrow> nat \<Rightarrow> string \<Rightarrow> session_manager
    \<Rightarrow> session_data option \<times> session_manager \<times> nat" where
  "load_from_disk_c clock n sid sm =
     (case load_session_metadata_c clock n sid sm of
        (Some sd, sm1, n1) \<Rightarrow> (Some sd, sm1\<lparr>sessions := AList.update sid sd (sessions sm1)\<rparr>, n1)
      | (None, sm1, n1) \<Rightarrow> (None, sm1, n1))"

definition get_session_c ::
  "clock \<Rightarrow> nat \<Rightarrow> string \<Rightarrow> session_manager
    \<Rightarrow> session_data option \<times> session_manager \<times> nat" where
  "get_session_c clock n sid sm =
     (case map_of (sessions sm) sid of
        Some sd \<Rightarrow>
          if clock n - created_at sd \<le> session_timeout sm then (Some sd, sm, Suc n)
          else load_from_disk_c clock (Suc n) sid
                 (sm\<lparr>sessions := AList.delete sid (sessions sm)\<rparr>)
      | None \<Rightarrow> load_from_disk_c clock n sid sm)"

definition get_dataframes_c ::
  "clock \<Rightarrow> nat \<Rightarrow> string \<Rightarrow> session_manager
    \<Rightarrow> (string \<times> data_frame) list option \<times> session_manager \<times> nat" where
  "get_dataframes_c clock n sid sm =
     (case get_session_c clock n sid sm of
        (Some sd, sm1, n1) \<Rightarrow> (dataframes sd, sm1, n1)
      | (None, sm1, n1) \<Rightarrow> (None, sm1, n1))"

definition get_session_info_c ::
  "clock \<Rightarrow> nat \<Rightarrow> string \<Rightarrow> session_manager
    \<Rightarrow> session_data option \<times> session_manager \<times> nat" where
  "get_session_info_c clock n sid sm =
     (case get_session_c clock n sid sm of
        (Some sd, sm1, n1) \<Rightarrow> (Some (sd\<lparr>dataframes := None\<rparr>), sm1, n1)
      | (None, sm1, n1) \<Rightarrow> (None, sm1, n1))"

text \<open>
  \<^verbatim>\<open>list_sessions\<close>. The loop over the snapshot of the in-memory items tests each item
  against the one reading \<^verbatim>\<open>current_time\<close> and then calls \<^verbatim>\<open>get_session_info\<close>, which
  reads the clock again. The loop over the session files takes the id of a file
  \<^verbatim>\<open>session_<id>.pkl\<close> to be \<^verbatim>\<open>session_file.stem.replace("session_", "")\<close>, which removes
  every occurrence of \<^verbatim>\<open>session_\<close>, left to right, and not only the prefix.
\<close>

fun strip_session :: "nat \<Rightarrow> string \<Rightarrow> string" where
  "strip_session skip [] = []"
| "strip_session (Suc skip) (c # cs) = strip_session skip cs"
| "strip_session 0 (c # cs) =
     (if take 8 (c # cs) = ''session_'' then strip_session 7 cs else c # strip_session 0 cs)"

definition file_session_id :: "string \<Rightarrow> string" where
  "file_session_id sid = strip_session 0 (''session_'' @ sid)"

fun list_memory_c ::
  "clock \<Rightarrow> real \<Rightarrow> (string \<times> session_data) list \<Rightarrow> (string \<times> session_data option) list
    \<Rightarrow> session_manager \<Rightarrow> nat
    \<Rightarrow> (string \<times> session_data option) list \<times> session_manager \<times> nat" where
  "list_memory_c clock current_time [] active sm n = (active, sm, n)"
| "list_memory_c clock current_time ((sid, sd) # remaining) active sm n =
     (if current_time - created_at sd \<le> session_timeout sm
      then (case get_session_info_c clock n sid sm of
              (info, sm1, n1) \<Rightarrow>
                list_memory_c clock current_time remaining (AList.update sid info active) sm1 n1)
      else list_memory_c clock current_time remaining active
             (sm\<lparr>sessions := AList.delete sid (sessions sm)\<rparr>) n)"

fun list_disk_c ::
  "clock \<Rightarrow> string list \<Rightarrow> (string \<times> session_data option) list \<Rightarrow> session_manager \<Rightarrow> nat
    \<Rightarrow> (string \<times> session_data option) list \<times> session_manager \<times> nat" where
  "list_disk_c clock [] active sm n = (active, sm, n)"
| "list_disk_c clock (sid # remaining) active sm n =
     (if sid \<notin> fst ` set active
      then (case get_session_info_c clock n sid sm of
              (Some info, sm1, n1) \<Rightarrow>
                list_disk_c clock remaining (AList.update sid (Some info) active) sm1 n1
            | (None, sm1, n1) \<Rightarrow> list_disk_c clock remaining active sm1 n1)
      else list_disk_c clock remaining active sm n)"

definition list_sessions_c ::
  "clock \<Rightarrow> nat \<Rightarrow> session_manager
    \<Rightarrow> (string \<times> session_data option) list \<times> session_manager \<times> nat" where
  "list_sessions_c clock n sm =
     (case list_memory_c clock (clock n) (sessions sm) [] sm (Suc n) of
        (active, sm1, n1) \<Rightarrow>
          list_disk_c clock (map (\<lambda>p. file_session_id (fst p)) (files sm1)) active sm1 n1)"

section \<open>File upload\<close>

text \<open>
  \<^verbatim>\<open>upload_files\<close> (\<^verbatim>\<open>app/api/v1/endpoints/files.py\<close>) with
  \<^verbatim>\<open>create_data_frame\<close> and \<^verbatim>\<open>_create_data_frame_from_files\<close>
  (\<^verbatim>\<open>app/services/ingest.py\<close>). An uploaded file is a stream: its bytes and a read
  position; \<^verbatim>\<open>read()\<close> returns the bytes from the position on and leaves the position
  at the end, \<^verbatim>\<open>seek(0)\<close> rewinds.
\<close>

record upload_file =
  filename :: string
  content :: string
  pos :: nat

definition read_file :: "upload_file \<Rightarrow> string \<times> upload_file" where
  "read_file f = (drop (pos f) (content f), f\<lparr>pos := max (pos f) (length (content f))\<rparr>)"

definition seek0 :: "upload_file \<Rightarrow> upload_file" where
  "seek0 f = f\<lparr>pos := 0\<rparr>"

text \<open>
  What the endpoint takes from elsewhere: the file-name helpers of
  \<^verbatim>\<open>app/core/security.py\<close>, the size limit of the settings, the decoder
  \<^verbatim>\<open>load_file\<close> (it raises or produces a table), \<^verbatim>\<open>Path(...).stem\<close> and the MD5
  hex digest.
\<close>

record upload_env =
  sanitize_filename :: "string \<Rightarrow> string"
  check_file_extension :: "string \<Rightarrow> bool"
  max_upload_size :: nat
  load_file :: "string \<Rightarrow> string \<Rightarrow> string + data_frame"
  stem :: "string \<Rightarrow> string"
  md5_hexdigest :: "string \<Rightarrow> string"

datatype upload_error =
    NoFilesProvided
  | InvalidFileFormatError string
  | FileTooLargeError string nat nat
  | DataIngestionError string

record upload_response =
  resp_session_id :: string
  total_tables :: nat
  data_tables :: "(string \<times> table_data) list"

text \<open>The validation loop: sanitise the name, check the extension, read, check the size, rewind.\<close>

fun validate_files :: "upload_env \<Rightarrow> upload_file list \<Rightarrow> upload_error + upload_file list" where
  "validate_files env [] = Inr []"
| "validate_files env (f # fs) =
     (let f1 = f\<lparr>filename := sanitize_filename env (filename f)\<rparr> in
      if \<not> check_file_extension env (filename f1)
      then Inl (InvalidFileFormatError (filename f1))
      else
        (case read_file f1 of
           (bytes, f2) \<Rightarrow>
             if length bytes > max_upload_size env
             then Inl (FileTooLargeError (filename f1) (length bytes) (max_upload_size env))
             else (case validate_files env fs of
                     Inl e \<Rightarrow> Inl e
                   | Inr fs' \<Rightarrow> Inr (seek0 f2 # fs'))))"

text \<open>
  The loop of \<^verbatim>\<open>_create_data_frame_from_files\<close>: every file is read once, decoded and
  entered in both dictionaries under the stem of its name. The streams are returned as the
  loop leaves them.
\<close>

definition make_table_data :: "string \<Rightarrow> data_frame \<Rightarrow> table_data" where
  "make_table_data name df =
     \<lparr>table_name = name, td_columns = columns df, td_total_rows = length (rows df),
      td_total_columns = length (columns df),
      preview = (if length (rows df) > 0
                 then Some (to_dict_records (df\<lparr>rows := take 5 (rows df)\<rparr>))
                 else None)\<rparr>"

fun create_data_frame_from_files ::
  "upload_env \<Rightarrow> upload_file list
    \<Rightarrow> (string \<times> table_data) list \<Rightarrow> (string \<times> data_frame) list
    \<Rightarrow> string + ((string \<times> table_data) list \<times> (string \<times> data_frame) list)
              \<times> upload_file list" where
  "create_data_frame_from_files env [] table_data dfs = Inr ((table_data, dfs), [])"
| "create_data_frame_from_files env (f # fs) table_data dfs =
     (case read_file f of
        (bytes, f1) \<Rightarrow>
          (let fname = (if filename f = [] then ''unknown'' else filename f);
               name = stem env fname
           in case load_file env bytes fname of
                Inl e \<Rightarrow> Inl e
              | Inr df \<Rightarrow>
                  (case create_data_frame_from_files env fs
                          (AList.update name (make_table_data name df) table_data)
                          (AList.update name df dfs) of
                     Inl e \<Rightarrow> Inl e
                   | Inr (r, fs') \<Rightarrow> Inr (r, f1 # fs'))))"

definition upload_files ::
  "upload_env \<Rightarrow> real \<Rightarrow> upload_file list \<Rightarrow> session_manager
    \<Rightarrow> (upload_error + upload_response) \<times> session_manager" where
  "upload_files env now fs sm =
     (if fs = [] then (Inl NoFilesProvided, sm)
      else
        (case validate_files env fs of
           Inl e \<Rightarrow> (Inl e, sm)
         | Inr fs1 \<Rightarrow>
             (case create_data_frame_from_files env fs1 [] [] of
                Inl e \<Rightarrow> (Inl (DataIngestionError e), sm)
              | Inr ((table_data, dfs), fs2) \<Rightarrow>
                  (case fs2 of
                     [] \<Rightarrow> (Inl (DataIngestionError ''list index out of range''), sm)
                   | f0 # others \<Rightarrow>
                       (case read_file f0 of
                          (first_file_content, f0') \<Rightarrow>
                            (let sid = md5_hexdigest env first_file_content in
                             case create_session now sid dfs table_data ''file'' sm of
                               Inl (RuntimeError e) \<Rightarrow> (Inl (DataIngestionError e), sm)
                             | Inr (sid', sm1) \<Rightarrow>
                                 (Inr \<lparr>resp_session_id = sid',
                                        total_tables = length table_data,
                                        data_tables = table_data\<rparr>, sm1)))))))"

section \<open>The graph-building request\<close>

text \<open>
  \<^verbatim>\<open>create_graph_data\<close> of \<^verbatim>\<open>app/api/v1/endpoints/graph_builder.py\<close>: the guards, the
  projection, the optional \<^verbatim>\<open>[:limit]\<close> and the write with batch size 1000 (the
  constructor's default is 1000 as well).
\<close>

datatype http_detail =
    Lit string
  | ProjectionFailed error
  | WriteFailed write_error

datatype http_error = HTTPException nat http_detail

definition slice_to :: "int \<Rightarrow> 'a list \<Rightarrow> 'a list" where
  "slice_to limit xs =
     (if limit < 0 then take (length xs - nat (- limit)) xs else take (nat limit) xs)"

definition graph_builder_create_graph_data ::
  "(string \<Rightarrow> string) \<Rightarrow> (props_dict \<Rightarrow> string)
    \<Rightarrow> (data_frame \<Rightarrow> data_frame \<Rightarrow> string set \<Rightarrow> error + data_frame)
    \<Rightarrow> (data_frame \<Rightarrow> error + data_frame)
    \<Rightarrow> ('s \<Rightarrow> cfg_data list \<Rightarrow> string + 's)
    \<Rightarrow> real \<Rightarrow> string \<Rightarrow> graph_config list \<Rightarrow> int option \<Rightarrow> session_manager \<Rightarrow> 's
    \<Rightarrow> (http_error + stats) \<times> session_manager \<times> 's" where
  "graph_builder_create_graph_data sha1 repr join_right collect run now sid
       graph_config_list limit sm store =
     (case get_session_info now sid sm of
        (None, sm1) \<Rightarrow>
          (Inl (HTTPException 404 (Lit ''Session not found or expired'')), sm1, store)
      | (Some session_info, sm1) \<Rightarrow>
          (case get_dataframes now sid sm1 of
             (None, sm2) \<Rightarrow>
               (Inl (HTTPException 404 (Lit ''No data found for this session'')), sm2, store)
           | (Some dfs, sm2) \<Rightarrow>
               if dfs = []
               then (Inl (HTTPException 404 (Lit ''No data found for this session'')),
                     sm2, store)
               else if graph_config_list = []
               then (Inl (HTTPException 400 (Lit ''Graph configuration list is empty'')),
                     sm2, store)
               else
                 (case create_graph_api sha1 repr join_right collect graph_config_list dfs of
                    Inl e \<Rightarrow> (Inl (HTTPException 500 (ProjectionFailed e)), sm2, store)
                  | Inr graph_api \<Rightarrow>
                      (let graph_api_to_process =
                             (case limit of
                                None \<Rightarrow> graph_api
                              | Some l \<Rightarrow> if l = 0 then graph_api else slice_to l graph_api)
                       in case create_graph_data run 1000 (Some 1000)
                                 graph_api_to_process store of
                            (Inl e, store') \<Rightarrow>
                              (Inl (HTTPException 500 (WriteFailed e)), sm2, store')
                          | (Inr result, store') \<Rightarrow> (Inr result, sm2, store')))))"

section \<open>Concrete inputs\<close>

text \<open>Two tables of which only the second has the column \<open>city\<close>.\<close>

definition table_A :: data_frame where
  "table_A = \<lparr>columns = [''id'', ''name''],
               rows = [[IntV 1, StrV ''John''], [IntV 2, StrV ''Jane'']]\<rparr>"

definition table_B :: data_frame where
  "table_B = \<lparr>columns = [''id'', ''name'', ''city''],
               rows = [[IntV 1, StrV ''John'', StrV ''NYC''],
                       [IntV 2, StrV ''Jane'', StrV ''LA'']]\<rparr>"

text \<open>The single table and the rule of the sample configuration.\<close>

definition people :: data_frame where
  "people = \<lparr>columns = [''id'', ''name'', ''age'', ''city''],
              rows = [[IntV 1, StrV ''John'', IntV 30, StrV ''NYC''],
                      [IntV 2, StrV ''Jane'', IntV 25, StrV ''LA'']]\<rparr>"

definition rule_lives_in :: graph_config where
  "rule_lives_in =
     \<lparr>source = \<lparr>label = ''Person'', properties = [''id'', ''name'', ''age'']\<rparr>,
      target = \<lparr>label = ''City'', properties = [''city'']\<rparr>,
      rels = \<lparr>label = ''LIVES_IN'', properties = []\<rparr>\<rparr>"








text \<open>
  A rendering of a list of items that shows every key and every value, standing for Python's
  \<^verbatim>\<open>repr\<close> in the examples.
\<close>

fun join_with :: "string \<Rightarrow> string list \<Rightarrow> string" where
  "join_with sep [] = []"
| "join_with sep [x] = x"
| "join_with sep (x # y # zs) = x @ sep @ join_with sep (y # zs)"

fun render_cell :: "cell \<Rightarrow> string" where
  "render_cell (IntV i) = (if i < 0 then ''-'' else []) @ show_nat (nat \<bar>i\<bar>)"
| "render_cell (StrV s) = s"
| "render_cell NoneV = ''None''"

definition render_items :: "props_dict \<Rightarrow> string" where
  "render_items d =
     ''['' @ join_with '', '' (map (\<lambda>kv. ''('' @ fst kv @ '', '' @ render_cell (snd kv) @ '')'') d)
       @ '']''"

text \<open>A session manager with nothing in it, and one holding a session created at time 0.\<close>

definition empty_manager :: session_manager where
  "empty_manager =
     \<lparr>session_timeout = 3600, sessions = [], files = [], locked = [], writable = True\<rparr>"

definition people_session :: session_data where
  "people_session =
     \<lparr>session_id = ''s1'', created_at = 0, source_type = ''file'', sd_table_data = [],
      dataframe_count = 1, total_rows = 2, dataframes = Some [(''people'', people)]\<rparr>"

definition manager_people :: session_manager where
  "manager_people =
     \<lparr>session_timeout = 3600, sessions = [(''s1'', people_session)],
      files = [(''s1'', Pickled people_session)], locked = [], writable = True\<rparr>"

text \<open>The same manager after a restart: the session is in the cache directory only.\<close>

definition manager_restarted :: session_manager where
  "manager_restarted = manager_people\<lparr>sessions := []\<rparr>"

text \<open>The same manager after the file of the session was removed from the cache directory.\<close>

definition manager_memory_only :: session_manager where
  "manager_memory_only = manager_people\<lparr>files := []\<rparr>"

text \<open>
  An upload environment that accepts every file, decodes the bytes to a table with one column
  named by them, and renders the digest of \<open>b\<close> as \<open>md5(b)\<close>; two files of different
  contents.
\<close>

definition sample_env :: upload_env where
  "sample_env =
     \<lparr>sanitize_filename = (\<lambda>n. n), check_file_extension = (\<lambda>n. True),
      max_upload_size = 100,
      load_file = (\<lambda>bytes name. Inr \<lparr>columns = [bytes], rows = []\<rparr>),
      stem = takeWhile (\<lambda>c. c \<noteq> CHR ''.''), md5_hexdigest = (\<lambda>bytes. ''md5('' @ bytes @ '')'')\<rparr>"

definition file_one :: upload_file where
  "file_one = \<lparr>filename = ''one.csv'', content = ''a,b'', pos = 0\<rparr>"

definition file_two :: upload_file where
  "file_two = \<lparr>filename = ''two.csv'', content = ''c,d,e'', pos = 0\<rparr>"

text \<open>A manager whose only session holds no table.\<close>

definition empty_session :: session_data where
  "empty_session =
     \<lparr>session_id = ''s0'', created_at = 0, source_type = ''file'', sd_table_data = [],
      dataframe_count = 0, total_rows = 0, dataframes = Some []\<rparr>"

definition manager_no_tables :: session_manager where
  "manager_no_tables =
     \<lparr>session_timeout = 3600, sessions = [(''s0'', empty_session)],
      files = [(''s0'', Pickled empty_session)], locked = [], writable = True\<rparr>"

text \<open>
  Edges to write, and a store that counts the edges written to it and refuses the batch
  offered once it holds 1000.
\<close>

definition sample_edge :: edge where
  "sample_edge = Edge (Element ''Person'' [(''name'', StrV ''John'')])
                      (Element ''City'' [(''city'', StrV ''NYC'')])
                      (Element ''LIVES_IN'' [(''city'', StrV ''NYC'')])"

definition counting_store_run :: "nat \<Rightarrow> cfg_data list \<Rightarrow> string + nat" where
  "counting_store_run committed cfgs =
     (if committed = 1000 then Inl ''store unavailable'' else Inr (committed + length cfgs))"

section \<open>Auxiliary facts\<close>

lemmas frame_defs = check_cols_exist_in_db_def check_step_def getitem_def cell_at_def
  to_dict_records_def dict_of_def

text \<open>The column check keeps the requested columns the table has, in the requested order.\<close>

lemma fold_check_step_fst:
  "fst (fold (check_step cs) cols st) = fst st @ filter (\<lambda>c. c \<in> set cs) cols"
  by (induction cols arbitrary: st) (simp_all add: check_step_def)

lemma check_cols_exist_in_db_cases:
  "check_cols_exist_in_db data cols =
     (if filter (\<lambda>c. c \<in> set (columns data)) cols \<noteq> []
      then Inr (fold (check_step (columns data)) cols ([], []))
      else Inl ColumnsNotExist)"
  by (simp add: check_cols_exist_in_db_def Let_def fold_check_step_fst)

lemma update_fresh: "k \<notin> fst ` set al \<Longrightarrow> AList.update k v al = al @ [(k, v)]"
  by (induction al) auto

lemma fold_update_distinct:
  "distinct (map fst items) \<Longrightarrow> fst ` set items \<inter> fst ` set acc = {} \<Longrightarrow>
     fold (\<lambda>kv d. AList.update (fst kv) (snd kv) d) items acc = acc @ items"
proof (induction items arbitrary: acc)
  case Nil
  then show ?case by simp
next
  case (Cons kv items)
  have fresh: "fst kv \<notin> fst ` set acc" using Cons.prems(2) by auto
  have "fst ` set items \<inter> fst ` set (acc @ [kv]) = {}"
    using Cons.prems by auto
  with Cons.IH [of "acc @ [kv]"] Cons.prems(1) fresh show ?case
    by (simp add: update_fresh)
qed

lemma dict_of_distinct: "distinct (map fst items) \<Longrightarrow> dict_of items = items"
  using fold_update_distinct [of items "[]"] by (simp add: dict_of_def)

lemma raw_key_perm:
  assumes "distinct (map fst props)" and "mset props' = mset props"
  shows "raw_key repr lbl props' = raw_key repr lbl props"
proof -
  have "inj_on fst (set props')"
  proof -
    have "mset (map fst props') = mset (map fst props)" using assms(2) by simp
    then have "distinct (map fst props')" using assms(1) by (metis mset_eq_imp_distinct_iff)
    then show ?thesis by (simp add: distinct_map)
  qed
  then have "sort_key fst props' = sort_key fst props"
    using assms(2) by (intro sort_key_eq_sort_key) simp_all
  then show ?thesis by (simp add: raw_key_def)
qed

lemma graph_element_props_eq:
  assumes "distinct props"
  shows "graph_element_props sha1 repr data lbl props =
    (let gp = filter (\<lambda>c. c \<in> set (columns data)) props in
     if gp = [] then Inl (ValueErrorOf ColumnsNotExist)
     else Inr (map (\<lambda>r. let d = map (\<lambda>c. (c, cell_at (columns data) r c)) gp in
                 Element lbl (AList.update ''id'' (StrV (element_id sha1 repr lbl d)) d)) (rows data)))"
proof -
  let ?gp = "filter (\<lambda>c. c \<in> set (columns data)) props"
  have d: "distinct ?gp" using assms by simp
  have z: "\<And>r. dict_of (zip ?gp (map (cell_at (columns data) r) ?gp)) = map (\<lambda>c. (c, cell_at (columns data) r c)) ?gp"
  proof -
    fix r
    have e: "zip ?gp (map (cell_at (columns data) r) ?gp) = map (\<lambda>c. (c, cell_at (columns data) r c)) ?gp"
      by (simp add: zip_map2 zip_same_conv_map)
    have "map fst (map (\<lambda>c. (c, cell_at (columns data) r c)) ?gp) = ?gp" by (simp add: comp_def)
    with d show "dict_of (zip ?gp (map (cell_at (columns data) r) ?gp)) = map (\<lambda>c. (c, cell_at (columns data) r c)) ?gp"
      unfolding e by (intro dict_of_distinct) simp
  qed
  show ?thesis
  proof (cases "?gp = []")
    case True
    then show ?thesis by (simp add: graph_element_props_def check_cols_exist_in_db_cases)
  next
    case False
    obtain ex info where f: "fold (check_step (columns data)) props ([], []) = (ex, info)"
      by (cases "fold (check_step (columns data)) props ([], [])")
    have ex: "ex = ?gp" using fold_check_step_fst [of "columns data" props "([], [])"] f by simp
    have sub: "set ?gp \<subseteq> set (columns data)" by auto
    have g: "getitem data ?gp = Inr \<lparr>columns = ?gp,
                rows = map (\<lambda>r. map (cell_at (columns data) r) ?gp) (rows data)\<rparr>"
      unfolding getitem_def using sub by (simp only: if_True)
    have c: "check_cols_exist_in_db data props = Inr (?gp, info)"
      using False f ex by (simp add: check_cols_exist_in_db_cases)
    show ?thesis using False z
      by (simp add: graph_element_props_def c g to_dict_records_def Let_def comp_def)
  qed
qed











lemma dict_of_keys_distinct_aux:
  "distinct (map fst acc) \<Longrightarrow>
     distinct (map fst (fold (\<lambda>kv d. AList.update (fst kv) (snd kv) d) items acc))"
  by (induction items arbitrary: acc) (simp_all add: distinct_update)

lemma dict_of_keys_distinct: "distinct (map fst (dict_of items))"
  unfolding dict_of_def by (rule dict_of_keys_distinct_aux) simp

lemma graph_element_props_Inr:
  assumes "graph_element_props sha1 repr data lbl props = Inr es"
  shows "\<exists>df. getitem data (filter (\<lambda>c. c \<in> set (columns data)) props) = Inr df \<and>
              es = map (\<lambda>items. Element lbl
                          (AList.update ''id''
                             (StrV (sha1 (lbl @ '':'' @ repr (sort_key fst items)))) items))
                     (to_dict_records df)"
proof -
  let ?gp = "filter (\<lambda>c. c \<in> set (columns data)) props"
  obtain ex info where f: "fold (check_step (columns data)) props ([], []) = (ex, info)"
    by (cases "fold (check_step (columns data)) props ([], [])")
  have ex: "ex = ?gp" using fold_check_step_fst [of "columns data" props "([], [])"] f by simp
  have ne: "?gp \<noteq> []"
    using assms by (auto simp: graph_element_props_def check_cols_exist_in_db_cases
        split: if_splits)
  have c: "check_cols_exist_in_db data props = Inr (?gp, info)"
    using ne f ex by (simp add: check_cols_exist_in_db_cases)
  have sub: "set ?gp \<subseteq> set (columns data)" by auto
  obtain df where g: "getitem data ?gp = Inr df"
    unfolding getitem_def using sub by (simp only: if_True)
  have "es = map (\<lambda>items. Element lbl
                          (AList.update ''id''
                             (StrV (sha1 (lbl @ '':'' @ repr (sort_key fst items)))) items))
                     (to_dict_records df)"
    using assms by (simp add: graph_element_props_def c g element_id_def raw_key_def)
  with g show ?thesis by blast
qed

lemma show_nat_small:
  "show_nat (Suc 0) = ''1''" "show_nat 2 = ''2''" "show_nat 30 = ''30''" "show_nat 25 = ''25''"
proof -
  have d: "\<And>n. n < 10 \<Longrightarrow> show_nat n = [''0123456789'' ! n]"
    by (subst show_nat.simps) simp
  show "show_nat (Suc 0) = ''1''" "show_nat 2 = ''2''" by (simp_all add: d)
  have "show_nat 30 = show_nat 3 @ ''0''" by (subst show_nat.simps) simp
  then show "show_nat 30 = ''30''" by (simp add: d)
  have "show_nat 25 = show_nat 2 @ ''5''" by (subst show_nat.simps) simp
  then show "show_nat 25 = ''25''" by (simp add: d)
qed

text \<open>Batches.\<close>

lemma process_batches_fail:
  "commit_all run s done = Inr s' \<Longrightarrow> create_batch run s' failed = Inl msg \<Longrightarrow>
   process_batches run i (done @ failed # later) s =
     (Inl (GraphCreationError (''Failed to process batch '' @ show_nat (i + length done))
            [(''error'', DStr msg), (''batch_size'', DInt (int (length failed)))]), s')"
proof (induction "done" arbitrary: i s)
  case Nil
  then show ?case by simp
next
  case (Cons b bs)
  then show ?case by (auto split: sum.splits)
qed

lemma concat_batches_take:
  "concat (map (\<lambda>k. take n (drop (k * n) xs)) [0 ..< m]) = take (m * n) xs"
proof (induction m)
  case 0
  then show ?case by simp
next
  case (Suc m)
  have "take (m * n) xs @ take n (drop (m * n) xs) = take (m * n + n) xs"
    by (simp add: take_add)
  with Suc show ?case by (simp add: add.commute)
qed

lemma below_ceiling:
  assumes "0 < (n::nat)" and "j < (len + n - 1) div n"
  shows "j * n < len"
proof -
  have "Suc j * n \<le> ((len + n - 1) div n) * n" using assms(2) by (intro mult_le_mono1) simp
  also have "\<dots> \<le> len + n - 1" by simp
  finally show ?thesis using assms(1) by simp
qed

lemma concat_split_batches:
  assumes "0 < bsz"
  shows "concat (split_batches xs bsz) = xs"
proof -
  let ?n = "nat bsz"
  have n: "0 < ?n" using assms by simp
  have "length xs \<le> ((length xs + ?n - 1) div ?n) * ?n"
  proof -
    have "(length xs + ?n - 1) mod ?n < ?n" using n by simp
    moreover have "((length xs + ?n - 1) div ?n) * ?n + (length xs + ?n - 1) mod ?n = length xs + ?n - 1"
      by simp
    ultimately show ?thesis by linarith
  qed
  then show ?thesis using assms by (simp add: split_batches_def concat_batches_take)
qed

lemma split_batches_nth:
  assumes "0 < bsz" and "j < length (split_batches xs bsz)"
  shows "split_batches xs bsz ! j = take (nat bsz) (drop (j * nat bsz) xs)"
    and "j * nat bsz < length xs"
  using assms below_ceiling [of "nat bsz" j "length xs"]
  by (simp_all add: split_batches_def)

lemma upt_0_3: "[0 ..< 3] = [0, 1, 2::nat]"
  by (simp add: numeral_3_eq_3)

lemma split_2500: "split_batches (replicate 2500 sample_edge) 1000 =
   [replicate 1000 sample_edge, replicate 1000 sample_edge, replicate 500 sample_edge]"
proof -
  have "(length (replicate 2500 sample_edge) + nat 1000 - 1) div nat 1000 = 3" by simp
  then show ?thesis unfolding split_batches_def by (simp add: upt_0_3)
qed

text \<open>The session manager: what a lookup does to the session asked for and to the others.\<close>

lemma map_of_delete_other: "k \<noteq> sid \<Longrightarrow> map_of (AList.delete k al) sid = map_of al sid"
  by (simp add: delete_conv')

lemma map_of_update_other: "k \<noteq> sid \<Longrightarrow> map_of (AList.update k v al) sid = map_of al sid"
  by (simp add: update_conv')

lemma map_of_delete_same: "map_of (AList.delete sid al) sid = None"
  by (simp add: delete_conv')

lemmas clocked_defs = get_session_c_def load_from_disk_c_def load_session_metadata_c_def
  delete_session_def

lemma get_session_c_frame:
  assumes "k \<noteq> sid" and "get_session_c clock n k sm = (r, sm', n')"
  shows "map_of (sessions sm') sid = map_of (sessions sm) sid \<and>
         map_of (files sm') sid = map_of (files sm) sid \<and>
         session_timeout sm' = session_timeout sm \<and> locked sm' = locked sm"
  using assms
  by (auto simp: clocked_defs Let_def map_of_delete_other map_of_update_other
      split: option.splits stored.splits if_splits)

lemma get_session_info_c_frame:
  assumes "k \<noteq> sid" and "get_session_info_c clock n k sm = (r, sm', n')"
  shows "map_of (sessions sm') sid = map_of (sessions sm) sid \<and>
         map_of (files sm') sid = map_of (files sm) sid \<and>
         session_timeout sm' = session_timeout sm \<and> locked sm' = locked sm"
proof -
  obtain r0 where "get_session_c clock n k sm = (r0, sm', n')"
    using assms(2) by (auto simp: get_session_info_c_def split: prod.splits option.splits)
  from get_session_c_frame [OF assms(1) this] show ?thesis .
qed

lemma get_session_c_found:
  assumes "map_of (sessions sm) sid = None \<or> map_of (sessions sm) sid = Some sd"
    and "map_of (files sm) sid = None \<or> map_of (files sm) sid = Some (Pickled sd)"
    and "map_of (sessions sm) sid = Some sd \<or> map_of (files sm) sid = Some (Pickled sd)"
    and "\<forall>k. clock k - created_at sd \<le> session_timeout sm"
    and "get_session_c clock n sid sm = (r, sm', n')"
  shows "r = Some sd \<and> map_of (sessions sm') sid = Some sd \<and>
         map_of (files sm') sid = map_of (files sm) sid \<and>
         session_timeout sm' = session_timeout sm \<and> locked sm' = locked sm"
proof -
  have v: "clock n - created_at sd \<le> session_timeout sm" using assms(4) by simp
  show ?thesis
    using assms(1,2,3,5) v
    by (auto simp: clocked_defs update_conv' split: if_splits)
qed

lemma get_session_info_c_found:
  assumes "map_of (sessions sm) sid = None \<or> map_of (sessions sm) sid = Some sd"
    and "map_of (files sm) sid = None \<or> map_of (files sm) sid = Some (Pickled sd)"
    and "map_of (sessions sm) sid = Some sd \<or> map_of (files sm) sid = Some (Pickled sd)"
    and "\<forall>k. clock k - created_at sd \<le> session_timeout sm"
    and "get_session_info_c clock n sid sm = (r, sm', n')"
  shows "r = Some (sd\<lparr>dataframes := None\<rparr>) \<and> map_of (sessions sm') sid = Some sd \<and>
         map_of (files sm') sid = map_of (files sm) sid \<and>
         session_timeout sm' = session_timeout sm \<and> locked sm' = locked sm"
proof -
  obtain r0 where g: "get_session_c clock n sid sm = (r0, sm', n')"
    using assms(5) by (auto simp: get_session_info_c_def split: prod.splits option.splits)
  from get_session_c_found [OF assms(1,2,3,4) g] assms(5) g show ?thesis
    by (simp add: get_session_info_c_def)
qed

lemma list_memory_c_found:
  assumes "map_of (sessions sm) sid = None \<or> map_of (sessions sm) sid = Some sd"
    and "map_of (files sm) sid = None \<or> map_of (files sm) sid = Some (Pickled sd)"
    and "map_of (sessions sm) sid = Some sd \<or> map_of (files sm) sid = Some (Pickled sd)"
    and "\<forall>k. clock k - created_at sd \<le> session_timeout sm"
    and "current_time - created_at sd \<le> session_timeout sm"
    and "\<And>v. (sid, v) \<in> set items \<Longrightarrow> v = sd"
    and "map_of active sid = None \<or> map_of active sid = Some (Some (sd\<lparr>dataframes := None\<rparr>))"
    and "list_memory_c clock current_time items active sm n = (active', sm', n')"
  shows "(map_of (sessions sm') sid = None \<or> map_of (sessions sm') sid = Some sd) \<and>
         (map_of (sessions sm') sid = Some sd \<or> map_of (files sm') sid = Some (Pickled sd)) \<and>
         map_of (files sm') sid = map_of (files sm) sid \<and>
         session_timeout sm' = session_timeout sm \<and>
         (map_of active' sid = None \<or>
          map_of active' sid = Some (Some (sd\<lparr>dataframes := None\<rparr>))) \<and>
         (sid \<in> fst ` set items \<or> map_of active sid \<noteq> None \<longrightarrow>
            map_of active' sid = Some (Some (sd\<lparr>dataframes := None\<rparr>)))"
  using assms
proof (induction items arbitrary: active sm n)
  case Nil
  then show ?case by auto
next
  case (Cons kv items)
  obtain k v where kv: "kv = (k, v)" by (cases kv)
  have same: "\<And>w. (sid, w) \<in> set items \<Longrightarrow> w = sd" using Cons.prems(6) by simp
  show ?case
  proof (cases "current_time - created_at v \<le> session_timeout sm")
    case True
    obtain info sm1 n1 where g: "get_session_info_c clock n k sm = (info, sm1, n1)"
      by (cases "get_session_info_c clock n k sm")
    have run: "list_memory_c clock current_time items (AList.update k info active) sm1 n1 =
                 (active', sm', n')"
      using Cons.prems(8) True g by (simp add: kv)
    show ?thesis
    proof (cases "k = sid")
      case True
      note s = get_session_info_c_found [OF Cons.prems(1,2,3,4) g [unfolded True]]
      have a: "map_of (AList.update k info active) sid =
                 Some (Some (sd\<lparr>dataframes := None\<rparr>))"
        using True s by (simp add: update_conv')
      have "(map_of (sessions sm') sid = None \<or> map_of (sessions sm') sid = Some sd) \<and>
         (map_of (sessions sm') sid = Some sd \<or> map_of (files sm') sid = Some (Pickled sd)) \<and>
         map_of (files sm') sid = map_of (files sm1) sid \<and>
         session_timeout sm' = session_timeout sm1 \<and>
         (map_of active' sid = None \<or>
          map_of active' sid = Some (Some (sd\<lparr>dataframes := None\<rparr>))) \<and>
         (sid \<in> fst ` set items \<or> map_of (AList.update k info active) sid \<noteq> None \<longrightarrow>
            map_of active' sid = Some (Some (sd\<lparr>dataframes := None\<rparr>)))"
        using s Cons.prems(2,4,5) a by (intro Cons.IH [OF _ _ _ _ _ same _ run]) simp_all
      then show ?thesis using s a by auto
    next
      case False
      note f = get_session_info_c_frame [OF False g]
      have a: "map_of (AList.update k info active) sid = map_of active sid"
        using False by (simp add: map_of_update_other)
      have "(map_of (sessions sm') sid = None \<or> map_of (sessions sm') sid = Some sd) \<and>
         (map_of (sessions sm') sid = Some sd \<or> map_of (files sm') sid = Some (Pickled sd)) \<and>
         map_of (files sm') sid = map_of (files sm1) sid \<and>
         session_timeout sm' = session_timeout sm1 \<and>
         (map_of active' sid = None \<or>
          map_of active' sid = Some (Some (sd\<lparr>dataframes := None\<rparr>))) \<and>
         (sid \<in> fst ` set items \<or> map_of (AList.update k info active) sid \<noteq> None \<longrightarrow>
            map_of active' sid = Some (Some (sd\<lparr>dataframes := None\<rparr>)))"
        using f Cons.prems(1,2,3,4,5,7) a
        by (intro Cons.IH [OF _ _ _ _ _ same _ run]) simp_all
      then show ?thesis using f a False by (auto simp: kv)
    qed
  next
    case False
    have ne: "k \<noteq> sid"
    proof
      assume "k = sid"
      then have "v = sd" using Cons.prems(6) [of v] by (simp add: kv)
      with False Cons.prems(5) show False by simp
    qed
    let ?sm1 = "sm\<lparr>sessions := AList.delete k (sessions sm)\<rparr>"
    have run: "list_memory_c clock current_time items active ?sm1 n = (active', sm', n')"
      using Cons.prems(8) False by (simp add: kv)
    have m: "map_of (sessions ?sm1) sid = map_of (sessions sm) sid"
      using ne by (simp add: map_of_delete_other)
    have "(map_of (sessions sm') sid = None \<or> map_of (sessions sm') sid = Some sd) \<and>
         (map_of (sessions sm') sid = Some sd \<or> map_of (files sm') sid = Some (Pickled sd)) \<and>
         map_of (files sm') sid = map_of (files ?sm1) sid \<and>
         session_timeout sm' = session_timeout ?sm1 \<and>
         (map_of active' sid = None \<or>
          map_of active' sid = Some (Some (sd\<lparr>dataframes := None\<rparr>))) \<and>
         (sid \<in> fst ` set items \<or> map_of active sid \<noteq> None \<longrightarrow>
            map_of active' sid = Some (Some (sd\<lparr>dataframes := None\<rparr>)))"
      using Cons.prems(1,2,3,4,5,7) m
      by (intro Cons.IH [OF _ _ _ _ _ same _ run]) simp_all
    then show ?thesis using ne by (auto simp: kv)
  qed
qed

lemma list_disk_c_found:
  assumes "map_of (sessions sm) sid = None \<or> map_of (sessions sm) sid = Some sd"
    and "map_of (files sm) sid = None \<or> map_of (files sm) sid = Some (Pickled sd)"
    and "map_of (sessions sm) sid = Some sd \<or> map_of (files sm) sid = Some (Pickled sd)"
    and "\<forall>k. clock k - created_at sd \<le> session_timeout sm"
    and "map_of active sid = None \<or> map_of active sid = Some (Some (sd\<lparr>dataframes := None\<rparr>))"
    and "sid \<in> set ids \<or> map_of active sid \<noteq> None"
    and "list_disk_c clock ids active sm n = (active', sm', n')"
  shows "map_of active' sid = Some (Some (sd\<lparr>dataframes := None\<rparr>))"
  using assms
proof (induction ids arbitrary: active sm n)
  case Nil
  then show ?case by auto
next
  case (Cons k ids)
  show ?case
  proof (cases "k \<in> fst ` set active")
    case True
    have run: "list_disk_c clock ids active sm n = (active', sm', n')"
      using Cons.prems(7) True by simp
    have "sid \<in> set ids \<or> map_of active sid \<noteq> None"
    proof (cases "k = sid")
      case True
      with \<open>k \<in> fst ` set active\<close> have "map_of active sid \<noteq> None"
        by (simp add: map_of_eq_None_iff)
      then show ?thesis by simp
    next
      case False
      then show ?thesis using Cons.prems(6) by auto
    qed
    from Cons.IH [OF Cons.prems(1,2,3,4,5) this run] show ?thesis .
  next
    case False
    obtain info sm1 n1 where g: "get_session_info_c clock n k sm = (info, sm1, n1)"
      by (cases "get_session_info_c clock n k sm")
    show ?thesis
    proof (cases "k = sid")
      case True
      note s = get_session_info_c_found [OF Cons.prems(1,2,3,4) g [unfolded True]]
      have run: "list_disk_c clock ids
                   (AList.update sid (Some (sd\<lparr>dataframes := None\<rparr>)) active) sm1 n1 =
                 (active', sm', n')"
        using Cons.prems(7) False g s True by simp
      have a: "map_of (AList.update sid (Some (sd\<lparr>dataframes := None\<rparr>)) active) sid =
                 Some (Some (sd\<lparr>dataframes := None\<rparr>))"
        by (simp add: update_conv')
      show ?thesis
        using s Cons.prems(2,4) a by (intro Cons.IH [OF _ _ _ _ _ _ run]) simp_all
    next
      case ne: False
      note f = get_session_info_c_frame [OF ne g]
      have x: "sid \<in> set ids \<or> map_of active sid \<noteq> None" using Cons.prems(6) ne by auto
      show ?thesis
      proof (cases info)
        case None
        have run: "list_disk_c clock ids active sm1 n1 = (active', sm', n')"
          using Cons.prems(7) False g None by simp
        show ?thesis
          using f Cons.prems(1,2,3,4,5) x by (intro Cons.IH [OF _ _ _ _ _ _ run]) simp_all
      next
        case (Some i)
        have run: "list_disk_c clock ids (AList.update k (Some i) active) sm1 n1 =
                     (active', sm', n')"
          using Cons.prems(7) False g Some by simp
        have a: "map_of (AList.update k (Some i) active) sid = map_of active sid"
          using ne by (simp add: map_of_update_other)
        show ?thesis
          using f Cons.prems(1,2,3,4,5) x a by (intro Cons.IH [OF _ _ _ _ _ _ run]) simp_all
      qed
    qed
  qed
qed

lemma get_session_c_gone:
  assumes "map_of (sessions sm) sid = None \<or> map_of (sessions sm) sid = Some sd"
    and "map_of (files sm) sid = None \<or> map_of (files sm) sid = Some (Pickled sd)"
    and "\<forall>k. session_timeout sm < clock k - created_at sd"
    and "sid \<notin> set (locked sm)"
    and "get_session_c clock n sid sm = (r, sm', n')"
  shows "r = None \<and> evicted sid sm' \<and> session_timeout sm' = session_timeout sm \<and>
         locked sm' = locked sm"
proof -
  have e: "\<not> clock n - created_at sd \<le> session_timeout sm"
    "session_timeout sm < clock n - created_at sd"
    "session_timeout sm < clock (Suc n) - created_at sd"
    using assms(3) by (simp_all add: not_le)
  show ?thesis
    using assms(1,2,4,5) e
    by (auto simp: clocked_defs evicted_def map_of_delete_same delete_idem
        split: if_splits option.splits)
qed

lemma get_session_info_c_gone:
  assumes "map_of (sessions sm) sid = None \<or> map_of (sessions sm) sid = Some sd"
    and "map_of (files sm) sid = None \<or> map_of (files sm) sid = Some (Pickled sd)"
    and "\<forall>k. session_timeout sm < clock k - created_at sd"
    and "sid \<notin> set (locked sm)"
    and "get_session_info_c clock n sid sm = (r, sm', n')"
  shows "r = None \<and> evicted sid sm' \<and> session_timeout sm' = session_timeout sm \<and>
         locked sm' = locked sm"
proof -
  obtain r0 where g: "get_session_c clock n sid sm = (r0, sm', n')"
    using assms(5) by (auto simp: get_session_info_c_def split: prod.splits option.splits)
  from get_session_c_gone [OF assms(1,2,3,4) g] assms(5) g show ?thesis
    by (simp add: get_session_info_c_def)
qed

lemma list_memory_c_gone:
  assumes "map_of (sessions sm) sid = None \<or> map_of (sessions sm) sid = Some sd"
    and "map_of (files sm) sid = None \<or> map_of (files sm) sid = Some (Pickled sd)"
    and "\<forall>k. session_timeout sm < clock k - created_at sd"
    and "session_timeout sm < current_time - created_at sd"
    and "\<And>v. (sid, v) \<in> set items \<Longrightarrow> v = sd"
    and "map_of active sid = None"
    and "map_of (sessions sm) sid = None \<or> sid \<in> fst ` set items"
    and "list_memory_c clock current_time items active sm n = (active', sm', n')"
  shows "map_of active' sid = None \<and> map_of (sessions sm') sid = None \<and>
         map_of (files sm') sid = map_of (files sm) sid \<and>
         session_timeout sm' = session_timeout sm \<and> locked sm' = locked sm"
  using assms
proof (induction items arbitrary: active sm n)
  case Nil
  then show ?case by auto
next
  case (Cons kv items)
  obtain k v where kv: "kv = (k, v)" by (cases kv)
  have same: "\<And>w. (sid, w) \<in> set items \<Longrightarrow> w = sd" using Cons.prems(5) by simp
  show ?case
  proof (cases "current_time - created_at v \<le> session_timeout sm")
    case True
    have ne: "k \<noteq> sid"
    proof
      assume "k = sid"
      then have "v = sd" using Cons.prems(5) [of v] by (simp add: kv)
      with True Cons.prems(4) show False by simp
    qed
    obtain info sm1 n1 where g: "get_session_info_c clock n k sm = (info, sm1, n1)"
      by (cases "get_session_info_c clock n k sm")
    have run: "list_memory_c clock current_time items (AList.update k info active) sm1 n1 =
                 (active', sm', n')"
      using Cons.prems(8) True g by (simp add: kv)
    note f = get_session_info_c_frame [OF ne g]
    have a: "map_of (AList.update k info active) sid = None"
      using Cons.prems(6) ne by (simp add: map_of_update_other)
    have cov: "map_of (sessions sm1) sid = None \<or> sid \<in> fst ` set items"
      using Cons.prems(7) f ne by (auto simp: kv)
    have "map_of active' sid = None \<and> map_of (sessions sm') sid = None \<and>
         map_of (files sm') sid = map_of (files sm1) sid \<and>
         session_timeout sm' = session_timeout sm1 \<and> locked sm' = locked sm1"
      using f Cons.prems(1,2,3,4)
      by (intro Cons.IH [OF _ _ _ _ same a cov run]) simp_all
    then show ?thesis using f by simp
  next
    case False
    let ?sm1 = "sm\<lparr>sessions := AList.delete k (sessions sm)\<rparr>"
    have run: "list_memory_c clock current_time items active ?sm1 n = (active', sm', n')"
      using Cons.prems(8) False by (simp add: kv)
    have m: "map_of (sessions ?sm1) sid = None \<or> map_of (sessions ?sm1) sid = Some sd"
      using Cons.prems(1) by (cases "k = sid") (simp_all add: delete_conv')
    have cov: "map_of (sessions ?sm1) sid = None \<or> sid \<in> fst ` set items"
      using Cons.prems(7) by (cases "k = sid") (auto simp: delete_conv' kv)
    have "map_of active' sid = None \<and> map_of (sessions sm') sid = None \<and>
         map_of (files sm') sid = map_of (files ?sm1) sid \<and>
         session_timeout sm' = session_timeout ?sm1 \<and> locked sm' = locked ?sm1"
      using Cons.prems(2,3,4)
      by (intro Cons.IH [OF m _ _ _ same Cons.prems(6) cov run]) simp_all
    then show ?thesis by simp
  qed
qed

lemma list_disk_c_gone:
  assumes "map_of (sessions sm) sid = None \<or> map_of (sessions sm) sid = Some sd"
    and "map_of (files sm) sid = None \<or> map_of (files sm) sid = Some (Pickled sd)"
    and "\<forall>k. session_timeout sm < clock k - created_at sd"
    and "sid \<notin> set (locked sm)"
    and "map_of active sid = None"
    and "sid \<in> set ids \<or> evicted sid sm"
    and "list_disk_c clock ids active sm n = (active', sm', n')"
  shows "map_of active' sid = None \<and> evicted sid sm'"
  using assms
proof (induction ids arbitrary: active sm n)
  case Nil
  then show ?case by simp
next
  case (Cons k ids)
  show ?case
  proof (cases "k \<in> fst ` set active")
    case True
    then have ne: "k \<noteq> sid" using Cons.prems(5) by (auto simp: map_of_eq_None_iff)
    have run: "list_disk_c clock ids active sm n = (active', sm', n')"
      using Cons.prems(7) True by simp
    have "sid \<in> set ids \<or> evicted sid sm" using Cons.prems(6) ne by auto
    from Cons.IH [OF Cons.prems(1,2,3,4,5) this run] show ?thesis .
  next
    case False
    obtain info sm1 n1 where g: "get_session_info_c clock n k sm = (info, sm1, n1)"
      by (cases "get_session_info_c clock n k sm")
    show ?thesis
    proof (cases "k = sid")
      case True
      from get_session_info_c_gone [OF Cons.prems(1,2,3,4) g [unfolded True]]
      have s: "info = None" "evicted sid sm1" "session_timeout sm1 = session_timeout sm"
        "locked sm1 = locked sm" by simp_all
      have run: "list_disk_c clock ids active sm1 n1 = (active', sm', n')"
        using Cons.prems(7) False g s(1) by simp
      show ?thesis
        using s Cons.prems(3,4,5)
        by (intro Cons.IH [OF _ _ _ _ _ _ run]) (simp_all add: evicted_def)
    next
      case ne: False
      note f = get_session_info_c_frame [OF ne g]
      have ev: "sid \<in> set ids \<or> evicted sid sm1"
        using Cons.prems(6) ne f by (auto simp: evicted_def)
      show ?thesis
      proof (cases info)
        case None
        have run: "list_disk_c clock ids active sm1 n1 = (active', sm', n')"
          using Cons.prems(7) False g None by simp
        show ?thesis
          using f Cons.prems(1,2,3,4,5) ev by (intro Cons.IH [OF _ _ _ _ _ _ run]) simp_all
      next
        case (Some i)
        have run: "list_disk_c clock ids (AList.update k (Some i) active) sm1 n1 =
                     (active', sm', n')"
          using Cons.prems(7) False g Some by simp
        have a: "map_of (AList.update k (Some i) active) sid = None"
          using Cons.prems(5) ne by (simp add: map_of_update_other)
        show ?thesis
          using f Cons.prems(1,2,3,4) ev a by (intro Cons.IH [OF _ _ _ _ _ _ run]) simp_all
      qed
    qed
  qed
qed

lemma get_session_c_constant_clock:
  "fst (get_session_c (\<lambda>k. now) n sid sm) = fst (get_session now sid sm) \<and>
   fst (snd (get_session_c (\<lambda>k. now) n sid sm)) = snd (get_session now sid sm)"
  by (auto simp: get_session_c_def get_session_def load_from_disk_c_def load_from_disk_def
      load_session_metadata_c_def load_session_metadata_def
      split: option.splits stored.splits)

lemma s1_listed: "file_session_id ''s1'' = ''s1''"
  by (simp add: file_session_id_def eval_nat_numeral)

lemma create_session_state:
  assumes "create_session t0 sid dfs td src sm0 = Inr (sid', sm)"
  shows "map_of (sessions sm) sid = Some (session_record t0 sid dfs td src)"
    and "map_of (files sm) sid = Some (Pickled (session_record t0 sid dfs td src))"
    and "session_timeout sm = session_timeout sm0" and "locked sm = locked sm0"
    and "sessions sm = AList.update sid (session_record t0 sid dfs td src) (sessions sm0)"
    and "files sm = AList.update sid (Pickled (session_record t0 sid dfs td src)) (files sm0)"
  using assms
  by (auto simp: create_session_def save_session_metadata_def Let_def update_conv'
      split: if_splits)

lemma created_people:
  "create_session 0 ''s1'' [(''people'', people)] [] ''file'' empty_manager =
     Inr (''s1'', manager_people)"
  by (simp add: create_session_def save_session_metadata_def session_record_def Let_def
      empty_manager_def manager_people_def people_session_def people_def)

text \<open>The upload: the streams after the decoding loop, and what a successful upload did.\<close>

lemma read_file_at_end: "length (content f) \<le> pos f \<Longrightarrow> fst (read_file f) = []"
  by (simp add: read_file_def)

lemma read_file_leaves_end: "length (content (snd (read_file f))) \<le> pos (snd (read_file f))"
  by (simp add: read_file_def)

lemma create_data_frame_from_files_reads_all:
  "create_data_frame_from_files env fs table_data dfs = Inr (r, fs') \<Longrightarrow>
     list_all (\<lambda>f. length (content f) \<le> pos f) fs'"
proof (induction fs arbitrary: table_data dfs r fs')
  case Nil
  then show ?case by simp
next
  case (Cons f fs)
  obtain bytes f1 where rd: "read_file f = (bytes, f1)" by (cases "read_file f")
  have e: "length (content f1) \<le> pos f1" using read_file_leaves_end [of f] rd by simp
  from Cons.prems rd obtain df r' fs'' where
    "create_data_frame_from_files env fs
       (AList.update (stem env (if filename f = [] then ''unknown'' else filename f))
          (make_table_data (stem env (if filename f = [] then ''unknown'' else filename f)) df)
          table_data)
       (AList.update (stem env (if filename f = [] then ''unknown'' else filename f)) df dfs) =
     Inr (r', fs'')" and "fs' = f1 # fs''"
    by (auto simp: Let_def split: sum.splits prod.splits)
  then show ?case using Cons.IH e by simp
qed

lemma upload_files_success:
  assumes "upload_files env now fs sm = (Inr r, sm')"
  shows "\<exists>fsv td dfs fs'.
           validate_files env fs = Inr fsv \<and>
           create_data_frame_from_files env fsv [] [] = Inr ((td, dfs), fs') \<and>
           r = \<lparr>resp_session_id = md5_hexdigest env [], total_tables = length td,
                 data_tables = td\<rparr> \<and>
           create_session now (md5_hexdigest env []) dfs td ''file'' sm =
             Inr (md5_hexdigest env [], sm')"
proof -
  from assms obtain fs1 where v: "validate_files env fs = Inr fs1"
    by (auto simp: upload_files_def split: if_splits sum.splits)
  from assms v obtain td dfs fs2 where
    c: "create_data_frame_from_files env fs1 [] [] = Inr ((td, dfs), fs2)"
    by (auto simp: upload_files_def split: if_splits sum.splits)
  from assms v c obtain f0 others where l: "fs2 = f0 # others"
    by (cases fs2) (auto simp: upload_files_def split: if_splits)
  have "length (content f0) \<le> pos f0"
    using create_data_frame_from_files_reads_all [OF c] l by simp
  then have rd: "fst (read_file f0) = []" by (rule read_file_at_end)
  obtain b f0' where rf: "read_file f0 = (b, f0')" by (cases "read_file f0")
  with rd have b: "b = []" by simp
  from assms v c l rf b
  have "r = \<lparr>resp_session_id = md5_hexdigest env [], total_tables = length td,
              data_tables = td\<rparr> \<and>
        create_session now (md5_hexdigest env []) dfs td ''file'' sm =
          Inr (md5_hexdigest env [], sm')"
    by (auto simp: upload_files_def Let_def create_session_def
        split: if_splits sum.splits sm_error.splits)
  then show ?thesis using v c by blast
qed

lemmas upload_defs = upload_files_def sample_env_def read_file_def
  seek0_def make_table_data_def create_session_def save_session_metadata_def
  session_record_def Let_def

lemma update_present_keys:
  "map_of al k = Some w \<Longrightarrow> map fst (AList.update k v al) = map fst al"
  by (auto simp: update_keys dest: map_of_SomeD intro: rev_image_eqI)

section \<open>The resolver and the single-table projection\<close>

text \<open>
  C1. The resolver is documented to return the first table that contains all the required
  columns. On the tables \<open>A\<close> (columns id, name) and \<open>B\<close> (columns id, name, city) and
  the required columns id, city it returns \<open>A\<close>, which lacks city, narrowed to the strict
  subset id: the column check accepts a table as soon as one required column is present.
\<close>

theorem find_data_frame_accepts_partial_match:
  "find_data_frame [(''A'', table_A), (''B'', table_B)] [''id'', ''city''] =
     Inr (''A'', \<lparr>columns = [''id''], rows = [[IntV 1], [IntV 2]]\<rparr>)"
  by (simp add: table_A_def table_B_def frame_defs)

text \<open>
  C2. On the single table with columns id, name, age, city and the rule
  Person(id, name, age), City(city), LIVES_IN() the projection yields no edges: the
  empty column list of the relationship makes the column check raise. Taken alone, the
  source records are built, and their property \<open>id\<close> holds the digest in place of
  the value of the column id.
\<close>

theorem create_graph_api_sample_rule_fails:
  "create_graph_api sha1 repr join_right collect [rule_lives_in] [(''people'', people)] =
     Inl (ValueErrorOf ColumnsNotExist) \<and>
   graph_element_props sha1 repr people ''Person'' [''id'', ''name'', ''age''] =
     Inr [Element ''Person''
            [(''id'', StrV (sha1 (''Person:'' @
                 repr [(''age'', IntV 30), (''id'', IntV 1), (''name'', StrV ''John'')]))),
             (''name'', StrV ''John''), (''age'', IntV 30)],
          Element ''Person''
            [(''id'', StrV (sha1 (''Person:'' @
                 repr [(''age'', IntV 25), (''id'', IntV 2), (''name'', StrV ''Jane'')]))),
             (''name'', StrV ''Jane''), (''age'', IntV 25)]]"
  by (simp add: create_graph_api_def source_to_target_rels_def graph_element_props_def
      people_def rule_lives_in_def frame_defs element_id_def raw_key_def)

text \<open>
  C5. For a table with distinct column names: every record that \<^verbatim>\<open>graph_element_props\<close>
  returns carries the label and the row's properties with \<^verbatim>\<open>id\<close> set to the digest of
  the label, a colon and the rendering of the row's items sorted by key; two rows with the
  same items get the same id. Listing the same distinct columns in another order, which is
  the insertion order of the row dictionaries, yields row by row the same id. Quite generally
  the id of a label and a dictionary is that digest, and it is the same for every dictionary
  with the same items in any order.
\<close>

theorem graph_element_props_id_hashes_label_and_sorted_items:
  assumes cols: "distinct (columns data)"
    and dist: "distinct props" and perm: "mset props' = mset props"
    and ok: "graph_element_props sha1 repr data lbl props = Inr es"
  shows "(\<exists>df. getitem data (filter (\<lambda>c. c \<in> set (columns data)) props) = Inr df \<and>
              es = map (\<lambda>items. Element lbl
                          (AList.update ''id''
                             (StrV (sha1 (lbl @ '':'' @ repr (sort_key fst items)))) items))
                     (to_dict_records df) \<and>
              (\<forall>i < length es. \<forall>j < length es.
                 mset (to_dict_records df ! i) = mset (to_dict_records df ! j) \<longrightarrow>
                 id_of (es ! i) = id_of (es ! j))) \<and>
         (\<exists>es'. graph_element_props sha1 repr data lbl props' = Inr es' \<and>
                map id_of es' = map id_of es) \<and>
         (\<forall>items items'. distinct (map fst items) \<and> mset items' = mset items \<longrightarrow>
            element_id sha1 repr lbl items = sha1 (lbl @ '':'' @ repr (sort_key fst items)) \<and>
            element_id sha1 repr lbl items' = element_id sha1 repr lbl items)"
proof -
  let ?P = "\<lambda>c. c \<in> set (columns data)"
  let ?d = "\<lambda>ps r. map (\<lambda>c. (c, cell_at (columns data) r c)) (filter ?P ps)"
  let ?f = "\<lambda>items. Element lbl
              (AList.update ''id'' (StrV (sha1 (lbl @ '':'' @ repr (sort_key fst items)))) items)"
  from graph_element_props_Inr [OF ok] obtain df where
    g: "getitem data (filter ?P props) = Inr df" and es0: "es = map ?f (to_dict_records df)"
    by blast
  have same: "\<forall>i < length es. \<forall>j < length es.
                 mset (to_dict_records df ! i) = mset (to_dict_records df ! j) \<longrightarrow>
                 id_of (es ! i) = id_of (es ! j)"
  proof (intro allI impI)
    fix i j
    assume i: "i < length es" and j: "j < length es"
      and h: "mset (to_dict_records df ! i) = mset (to_dict_records df ! j)"
    have li: "i < length (rows df)" and lj: "j < length (rows df)"
      using i j es0 by (simp_all add: to_dict_records_def)
    have dk: "distinct (map fst (to_dict_records df ! j))"
      using lj by (simp add: to_dict_records_def dict_of_keys_distinct)
    have "raw_key repr lbl (to_dict_records df ! i) = raw_key repr lbl (to_dict_records df ! j)"
      by (rule raw_key_perm [OF dk h])
    then have "sha1 (lbl @ '':'' @ repr (sort_key fst (to_dict_records df ! i))) =
               sha1 (lbl @ '':'' @ repr (sort_key fst (to_dict_records df ! j)))"
      by (simp add: raw_key_def)
    then show "id_of (es ! i) = id_of (es ! j)"
      using i j es0 by (simp add: id_of_def update_conv')
  qed
  have a: "\<exists>df. getitem data (filter ?P props) = Inr df \<and> es = map ?f (to_dict_records df) \<and>
              (\<forall>i < length es. \<forall>j < length es.
                 mset (to_dict_records df ! i) = mset (to_dict_records df ! j) \<longrightarrow>
                 id_of (es ! i) = id_of (es ! j))"
    using g es0 same by blast
  have d': "distinct props'" using dist perm by (metis mset_eq_imp_distinct_iff)
  have m: "mset (filter ?P props') = mset (filter ?P props)" using perm by simp
  have ne: "filter ?P props \<noteq> []"
    using ok by (auto simp: graph_element_props_eq [OF dist] Let_def split: if_splits)
  have ne': "filter ?P props' \<noteq> []" using m ne by (metis mset_zero_iff)
  have k: "\<And>r. element_id sha1 repr lbl (?d props' r) = element_id sha1 repr lbl (?d props r)"
  proof -
    fix r
    have dk: "distinct (map fst (?d props r))" using dist by (simp add: comp_def)
    have mk: "mset (?d props' r) = mset (?d props r)" by (simp only: mset_map m)
    show "element_id sha1 repr lbl (?d props' r) = element_id sha1 repr lbl (?d props r)"
      unfolding element_id_def using raw_key_perm [OF dk mk] by (rule arg_cong)
  qed
  have es: "es = map (\<lambda>r. Element lbl (AList.update ''id''
                  (StrV (element_id sha1 repr lbl (?d props r))) (?d props r))) (rows data)"
    using ok ne by (simp add: graph_element_props_eq [OF dist] Let_def)
  have b: "\<exists>es'. graph_element_props sha1 repr data lbl props' = Inr es' \<and>
                map id_of es' = map id_of es"
    using ne' k
    by (simp add: graph_element_props_eq [OF d'] Let_def es id_of_def comp_def update_conv')
  have c: "\<forall>items items'. distinct (map fst items) \<and> mset items' = mset items \<longrightarrow>
            element_id sha1 repr lbl items = sha1 (lbl @ '':'' @ repr (sort_key fst items)) \<and>
            element_id sha1 repr lbl items' = element_id sha1 repr lbl items"
  proof (intro allI impI)
    fix items items' :: props_dict
    assume h: "distinct (map fst items) \<and> mset items' = mset items"
    then have "raw_key repr lbl items' = raw_key repr lbl items" by (intro raw_key_perm) simp_all
    then show "element_id sha1 repr lbl items = sha1 (lbl @ '':'' @ repr (sort_key fst items)) \<and>
            element_id sha1 repr lbl items' = element_id sha1 repr lbl items"
      by (simp add: element_id_def raw_key_def)
  qed
  show ?thesis using a b c by blast
qed

text \<open>
  C5, an instance: the table \<open>people\<close>, the identity for the digest and a rendering that shows
  keys and values; the columns in the order id, name, age and in the order age, id, name.
\<close>

theorem graph_element_props_id_hashes_label_and_sorted_items_witness:
  "graph_element_props (\<lambda>s. s) render_items people ''Person'' [''id'', ''name'', ''age''] =
     Inr [Element ''Person''
            [(''id'', StrV ''Person:[(age, 30), (id, 1), (name, John)]''),
             (''name'', StrV ''John''), (''age'', IntV 30)],
          Element ''Person''
            [(''id'', StrV ''Person:[(age, 25), (id, 2), (name, Jane)]''),
             (''name'', StrV ''Jane''), (''age'', IntV 25)]] \<and>
   (\<exists>es'. graph_element_props (\<lambda>s. s) render_items people ''Person''
            [''age'', ''id'', ''name''] = Inr es' \<and>
          map id_of es' = [Some (StrV ''Person:[(age, 30), (id, 1), (name, John)]''),
                           Some (StrV ''Person:[(age, 25), (id, 2), (name, Jane)]'')]) \<and>
   element_id (\<lambda>s. s) render_items ''Person'' [(''name'', StrV ''John''), (''id'', IntV 1)] =
     element_id (\<lambda>s. s) render_items ''Person'' [(''id'', IntV 1), (''name'', StrV ''John'')]"
proof -
  have c: "distinct (columns people)" by (simp add: people_def)
  have d: "distinct [''id'', ''name'', ''age'']" by simp
  have p: "mset [''age'', ''id'', ''name''] = mset [''id'', ''name'', ''age'']" by simp
  have ok: "graph_element_props (\<lambda>s. s) render_items people ''Person'' [''id'', ''name'', ''age''] =
     Inr [Element ''Person''
            [(''id'', StrV ''Person:[(age, 30), (id, 1), (name, John)]''),
             (''name'', StrV ''John''), (''age'', IntV 30)],
          Element ''Person''
            [(''id'', StrV ''Person:[(age, 25), (id, 2), (name, Jane)]''),
             (''name'', StrV ''Jane''), (''age'', IntV 25)]]"
    by (simp add: graph_element_props_def people_def frame_defs element_id_def raw_key_def
        render_items_def show_nat_small)
  have i: "distinct (map fst [(''id'', IntV 1), (''name'', StrV ''John'')]) \<and>
           mset [(''name'', StrV ''John''), (''id'', IntV 1)] =
             mset [(''id'', IntV 1), (''name'', StrV ''John'')]" by simp
  from graph_element_props_id_hashes_label_and_sorted_items [OF c d p ok] ok i show ?thesis by (simp add: id_of_def)
qed

section \<open>Projection over several tables\<close>







section \<open>Batched writing\<close>

text \<open>
  C6. 2500 edges, batch size 1000, and a store that refuses the second batch. The loop over
  the batches stops at the second batch with the store holding the 1000 edges of the first,
  and raises \<^verbatim>\<open>Failed to process batch 2\<close> with the store's error and the size 1000 of
  the failed batch in its details. \<^verbatim>\<open>create_graph_data\<close> catches that error and raises
  \<^verbatim>\<open>Failed to create graph\<close> in its place, whose details hold the text of the caught
  error and the 2500 edges submitted: the size of the failed batch and the store's error
  are lost, and the number of edges written is not reported.
\<close>

theorem create_graph_data_drops_failed_batch_details:
  "process_batches counting_store_run 1 (split_batches (replicate 2500 sample_edge) 1000) 0 =
     (Inl (GraphCreationError ''Failed to process batch 2''
            [(''error'', DStr ''store unavailable''), (''batch_size'', DInt 1000)]), 1000) \<and>
   create_graph_data counting_store_run 1000 (Some 1000) (replicate 2500 sample_edge) 0 =
     (Inl (GraphCreationError ''Failed to create graph''
            [(''error'', DStr ''Failed to process batch 2''), (''configs'', DInt 2500)]), 1000)"
proof -
  have two: "show_nat (Suc (Suc 0)) = ''2''" by (subst show_nat.simps) simp
  show ?thesis
    by (simp add: create_graph_data_def Let_def split_2500 create_batch_def
        counting_store_run_def two)
qed

section \<open>Sessions\<close>

text \<open>
  C8, as the code has it. Let session \<open>sid\<close> with the record \<open>sd\<close> be held in memory, in a
  file of the cache directory, or in both (in memory only after the file was removed, on disk
  only after a restart), and let \<open>sid\<close> be an id that the listing recovers from the file
  name. If every reading \<open>t\<close> of the clock taken during an access has
  \<open>t - created_at \<le> T\<close>, the access finds the session: \<^verbatim>\<open>get_session\<close> returns the
  record, \<^verbatim>\<open>get_dataframes\<close> its tables, \<^verbatim>\<open>get_session_info\<close> the record without the
  tables, and \<^verbatim>\<open>list_sessions\<close> lists it with that information. If every reading has
  \<open>t - created_at > T\<close> and the file can be removed, each of the four finds the session
  absent and leaves it neither in memory nor in the cache directory. The boundary
  \<open>t - created_at = T\<close> belongs to the first case, for the copy in memory alone, for the
  copy on disk alone, and for both together.
\<close>

theorem session_expiry_at_timeout_boundary:
  assumes mem: "map_of (sessions sm) sid = None \<or> map_of (sessions sm) sid = Some sd"
    and disk: "map_of (files sm) sid = None \<or> map_of (files sm) sid = Some (Pickled sd)"
    and held: "map_of (sessions sm) sid = Some sd \<or> map_of (files sm) sid = Some (Pickled sd)"
    and keys: "distinct (map fst (sessions sm))"
    and name: "file_session_id sid = sid"
  shows "((\<forall>k. clock k - created_at sd \<le> session_timeout sm) \<longrightarrow>
            fst (get_session_c clock n sid sm) = Some sd \<and>
            fst (get_dataframes_c clock n sid sm) = dataframes sd \<and>
            fst (get_session_info_c clock n sid sm) = Some (sd\<lparr>dataframes := None\<rparr>) \<and>
            map_of (fst (list_sessions_c clock n sm)) sid =
              Some (Some (sd\<lparr>dataframes := None\<rparr>))) \<and>
         ((\<forall>k. session_timeout sm < clock k - created_at sd) \<and> sid \<notin> set (locked sm) \<longrightarrow>
            fst (get_session_c clock n sid sm) = None \<and>
            evicted sid (fst (snd (get_session_c clock n sid sm))) \<and>
            fst (get_dataframes_c clock n sid sm) = None \<and>
            evicted sid (fst (snd (get_dataframes_c clock n sid sm))) \<and>
            fst (get_session_info_c clock n sid sm) = None \<and>
            evicted sid (fst (snd (get_session_info_c clock n sid sm))) \<and>
            map_of (fst (list_sessions_c clock n sm)) sid = None \<and>
            evicted sid (fst (snd (list_sessions_c clock n sm))))"
proof -
  let ?info = "sd\<lparr>dataframes := None\<rparr>"
  have same: "\<And>v. (sid, v) \<in> set (sessions sm) \<Longrightarrow> v = sd"
  proof -
    fix v assume "(sid, v) \<in> set (sessions sm)"
    then have "map_of (sessions sm) sid = Some v" using keys by simp
    with mem show "v = sd" by auto
  qed
  have cov: "map_of (sessions sm) sid = None \<or> sid \<in> fst ` set (sessions sm)"
    by (auto simp: map_of_eq_None_iff)
  obtain r sm1 n1 where g: "get_session_c clock n sid sm = (r, sm1, n1)"
    by (cases "get_session_c clock n sid sm")
  obtain active sm2 n2 where
    m: "list_memory_c clock (clock n) (sessions sm) [] sm (Suc n) = (active, sm2, n2)"
    by (cases "list_memory_c clock (clock n) (sessions sm) [] sm (Suc n)")
  obtain active' sm3 n3 where
    d: "list_disk_c clock (map (\<lambda>p. file_session_id (fst p)) (files sm2)) active sm2 n2 =
          (active', sm3, n3)"
    by (cases "list_disk_c clock (map (\<lambda>p. file_session_id (fst p)) (files sm2)) active sm2 n2")
  have ls: "list_sessions_c clock n sm = (active', sm3, n3)"
    by (simp add: list_sessions_c_def m d)
  have listed: "sid \<in> set (map (\<lambda>p. file_session_id (fst p)) (files sm'))"
    if "map_of (files sm') sid = Some (Pickled sd)" for sm'
  proof -
    from map_of_SomeD [OF that] have "(sid, Pickled sd) \<in> set (files sm')" .
    then have "file_session_id (fst (sid, Pickled sd)) \<in>
                 (\<lambda>p. file_session_id (fst p)) ` set (files sm')" by (rule imageI)
    then show ?thesis using name by simp
  qed
  have valid: "fst (get_session_c clock n sid sm) = Some sd \<and>
            fst (get_dataframes_c clock n sid sm) = dataframes sd \<and>
            fst (get_session_info_c clock n sid sm) = Some ?info \<and>
            map_of (fst (list_sessions_c clock n sm)) sid = Some (Some ?info)"
    if v: "\<forall>k. clock k - created_at sd \<le> session_timeout sm"
  proof -
    note s = get_session_c_found [OF mem disk held v g]
    have e: "map_of [] sid = None \<or> map_of [] sid = Some (Some ?info)" by simp
    have c: "clock n - created_at sd \<le> session_timeout sm" using v by simp
    note p = list_memory_c_found [OF mem disk held v c same e m]
    have v2: "\<forall>k. clock k - created_at sd \<le> session_timeout sm2" using v p by simp
    have d2: "map_of (files sm2) sid = None \<or> map_of (files sm2) sid = Some (Pickled sd)"
      using disk p by simp
    have x: "sid \<in> set (map (\<lambda>p. file_session_id (fst p)) (files sm2)) \<or>
             map_of active sid \<noteq> None"
    proof (cases "map_of (sessions sm) sid = Some sd")
      case True
      then have "sid \<in> fst ` set (sessions sm)" using cov by simp
      then show ?thesis using p by simp
    next
      case False
      then have "map_of (files sm2) sid = Some (Pickled sd)" using held p by simp
      then show ?thesis using listed [of sm2] by simp
    qed
    have m2: "map_of (sessions sm2) sid = None \<or> map_of (sessions sm2) sid = Some sd"
      and h2: "map_of (sessions sm2) sid = Some sd \<or>
               map_of (files sm2) sid = Some (Pickled sd)"
      and a2: "map_of active sid = None \<or> map_of active sid = Some (Some ?info)"
      using p by blast+
    have "map_of active' sid = Some (Some ?info)"
      by (rule list_disk_c_found [OF m2 d2 h2 v2 a2 x d])
    then show ?thesis
      using s g ls by (simp add: get_dataframes_c_def get_session_info_c_def)
  qed
  have expired: "fst (get_session_c clock n sid sm) = None \<and>
            evicted sid (fst (snd (get_session_c clock n sid sm))) \<and>
            fst (get_dataframes_c clock n sid sm) = None \<and>
            evicted sid (fst (snd (get_dataframes_c clock n sid sm))) \<and>
            fst (get_session_info_c clock n sid sm) = None \<and>
            evicted sid (fst (snd (get_session_info_c clock n sid sm))) \<and>
            map_of (fst (list_sessions_c clock n sm)) sid = None \<and>
            evicted sid (fst (snd (list_sessions_c clock n sm)))"
    if e: "\<forall>k. session_timeout sm < clock k - created_at sd" and l: "sid \<notin> set (locked sm)"
  proof -
    note s = get_session_c_gone [OF mem disk e l g]
    have c: "session_timeout sm < clock n - created_at sd" using e by simp
    have a: "map_of [] sid = (None :: session_data option option)" by simp
    note p = list_memory_c_gone [OF mem disk e c same a cov m]
    have e2: "\<forall>k. session_timeout sm2 < clock k - created_at sd" using e p by simp
    have l2: "sid \<notin> set (locked sm2)" using l p by simp
    have m2: "map_of (sessions sm2) sid = None \<or> map_of (sessions sm2) sid = Some sd"
      using p by simp
    have d2: "map_of (files sm2) sid = None \<or> map_of (files sm2) sid = Some (Pickled sd)"
      using disk p by simp
    have x: "sid \<in> set (map (\<lambda>p. file_session_id (fst p)) (files sm2)) \<or> evicted sid sm2"
      using d2 p listed [of sm2] by (auto simp: evicted_def)
    have a2: "map_of active sid = None" using p by simp
    note q = list_disk_c_gone [OF m2 d2 e2 l2 a2 x d]
    show ?thesis
      using s g ls q by (simp add: get_dataframes_c_def get_session_info_c_def)
  qed
  show ?thesis using valid expired by blast
qed

theorem session_expiry_at_timeout_boundary_witness:
  "fst (get_session_c (\<lambda>k. 3600) 0 ''s1'' manager_people) = Some people_session \<and>
   map_of (fst (list_sessions_c (\<lambda>k. 3600) 0 manager_people)) ''s1'' =
     Some (Some (people_session\<lparr>dataframes := None\<rparr>)) \<and>
   fst (get_session_c (\<lambda>k. 3600) 0 ''s1'' manager_restarted) = Some people_session \<and>
   fst (get_dataframes_c (\<lambda>k. 3600) 0 ''s1'' manager_restarted) =
     Some [(''people'', people)] \<and>
   fst (get_session_info_c (\<lambda>k. 3600) 0 ''s1'' manager_restarted) =
     Some (people_session\<lparr>dataframes := None\<rparr>) \<and>
   map_of (fst (list_sessions_c (\<lambda>k. 3600) 0 manager_restarted)) ''s1'' =
     Some (Some (people_session\<lparr>dataframes := None\<rparr>)) \<and>
   fst (get_session_c (\<lambda>k. 3600) 0 ''s1'' manager_memory_only) = Some people_session \<and>
   map_of (fst (list_sessions_c (\<lambda>k. 3600) 0 manager_memory_only)) ''s1'' =
     Some (Some (people_session\<lparr>dataframes := None\<rparr>)) \<and>
   fst (get_session_c (\<lambda>k. 3601 + real k) 0 ''s1'' manager_people) = None \<and>
   evicted ''s1'' (fst (snd (get_session_c (\<lambda>k. 3601 + real k) 0 ''s1'' manager_people))) \<and>
   fst (get_dataframes_c (\<lambda>k. 3601 + real k) 0 ''s1'' manager_people) = None \<and>
   fst (get_session_info_c (\<lambda>k. 3601 + real k) 0 ''s1'' manager_people) = None \<and>
   map_of (fst (list_sessions_c (\<lambda>k. 3601 + real k) 0 manager_people)) ''s1'' = None \<and>
   evicted ''s1'' (fst (snd (list_sessions_c (\<lambda>k. 3601 + real k) 0 manager_people))) \<and>
   fst (get_session_c (\<lambda>k. 3601 + real k) 0 ''s1'' manager_restarted) = None \<and>
   evicted ''s1'' (fst (snd (list_sessions_c (\<lambda>k. 3601 + real k) 0 manager_restarted))) \<and>
   fst (get_session_c (\<lambda>k. 3601 + real k) 0 ''s1'' manager_memory_only) = None \<and>
   evicted ''s1'' (fst (snd (list_sessions_c (\<lambda>k. 3601 + real k) 0 manager_memory_only)))"
proof -
  have m1: "map_of (sessions manager_people) ''s1'' = None \<or>
             map_of (sessions manager_people) ''s1'' = Some people_session"
    and d1: "map_of (files manager_people) ''s1'' = None \<or>
             map_of (files manager_people) ''s1'' = Some (Pickled people_session)"
    and h1: "map_of (sessions manager_people) ''s1'' = Some people_session \<or>
             map_of (files manager_people) ''s1'' = Some (Pickled people_session)"
    and k1: "distinct (map fst (sessions manager_people))"
    by (simp_all add: manager_people_def)
  have m2: "map_of (sessions manager_restarted) ''s1'' = None \<or>
             map_of (sessions manager_restarted) ''s1'' = Some people_session"
    and d2: "map_of (files manager_restarted) ''s1'' = None \<or>
             map_of (files manager_restarted) ''s1'' = Some (Pickled people_session)"
    and h2: "map_of (sessions manager_restarted) ''s1'' = Some people_session \<or>
             map_of (files manager_restarted) ''s1'' = Some (Pickled people_session)"
    and k2: "distinct (map fst (sessions manager_restarted))"
    by (simp_all add: manager_restarted_def manager_people_def)
  have m3: "map_of (sessions manager_memory_only) ''s1'' = None \<or>
             map_of (sessions manager_memory_only) ''s1'' = Some people_session"
    and d3: "map_of (files manager_memory_only) ''s1'' = None \<or>
             map_of (files manager_memory_only) ''s1'' = Some (Pickled people_session)"
    and h3: "map_of (sessions manager_memory_only) ''s1'' = Some people_session \<or>
             map_of (files manager_memory_only) ''s1'' = Some (Pickled people_session)"
    and k3: "distinct (map fst (sessions manager_memory_only))"
    by (simp_all add: manager_memory_only_def manager_people_def)
  have t: "session_timeout manager_people = 3600" "session_timeout manager_restarted = 3600"
    "session_timeout manager_memory_only = 3600"
    "locked manager_people = []" "locked manager_restarted = []"
    "locked manager_memory_only = []"
    "created_at people_session = 0"
    "dataframes people_session = Some [(''people'', people)]"
    by (simp_all add: manager_restarted_def manager_memory_only_def manager_people_def
        people_session_def)
  from session_expiry_at_timeout_boundary [OF m1 d1 h1 k1 s1_listed, of "\<lambda>k. 3600" 0]
       session_expiry_at_timeout_boundary [OF m2 d2 h2 k2 s1_listed, of "\<lambda>k. 3600" 0]
       session_expiry_at_timeout_boundary [OF m3 d3 h3 k3 s1_listed, of "\<lambda>k. 3600" 0]
       session_expiry_at_timeout_boundary [OF m1 d1 h1 k1 s1_listed, of "\<lambda>k. 3601 + real k" 0]
       session_expiry_at_timeout_boundary [OF m2 d2 h2 k2 s1_listed, of "\<lambda>k. 3601 + real k" 0]
       session_expiry_at_timeout_boundary [OF m3 d3 h3 k3 s1_listed, of "\<lambda>k. 3601 + real k" 0]
  show ?thesis by (simp add: t)
qed

text \<open>
  C8 as stated fails at the boundary: with the clock at 3600, which is the timeout after the
  creation at time 0, the session is returned by \<^verbatim>\<open>get_session\<close> and listed by
  \<^verbatim>\<open>list_sessions\<close>, whether it is held in memory and on disk, only on disk, or only
  in memory.
\<close>

theorem session_found_at_elapsed_equal_timeout:
  "create_session 0 ''s1'' [(''people'', people)] [] ''file'' empty_manager =
     Inr (''s1'', manager_people) \<and>
   session_timeout manager_people = 3600 \<and>
   fst (get_session_c (\<lambda>k. 3600) 0 ''s1'' manager_people) = Some people_session \<and>
   fst (get_session_c (\<lambda>k. 3600) 0 ''s1'' manager_restarted) = Some people_session \<and>
   fst (get_session_c (\<lambda>k. 3600) 0 ''s1'' manager_memory_only) = Some people_session \<and>
   fst (list_sessions_c (\<lambda>k. 3600) 0 manager_people) =
     [(''s1'', Some (people_session\<lparr>dataframes := None\<rparr>))] \<and>
   fst (list_sessions_c (\<lambda>k. 3600) 0 manager_restarted) =
     [(''s1'', Some (people_session\<lparr>dataframes := None\<rparr>))] \<and>
   fst (list_sessions_c (\<lambda>k. 3600) 0 manager_memory_only) =
     [(''s1'', Some (people_session\<lparr>dataframes := None\<rparr>))]"
  by (simp add: created_people manager_restarted_def manager_memory_only_def manager_people_def
      people_session_def get_session_c_def load_from_disk_c_def load_session_metadata_c_def
      get_session_info_c_def list_sessions_c_def s1_listed)

text \<open>
  C9. Deleting a session id of which no copy exists, in memory or on disk, returns True
  and changes nothing.
\<close>

theorem delete_session_unknown_id_returns_True:
  "delete_session ''unknown'' empty_manager = (True, empty_manager)"
  by (simp add: delete_session_def empty_manager_def)

section \<open>Upload\<close>

text \<open>
  C7. Whenever \<^verbatim>\<open>upload_files\<close> succeeds, the session id it returns and stores under is the
  digest of the empty byte string: the decoding loop has read every stream to its end, so the
  read of the first stream that follows yields no bytes. Hence of two successful uploads, one
  after the other on the same manager, both get that id, and after the second the entry under
  it, in memory and in the cache directory, is the session of the second upload (its time, its
  tables), no entry having been added.
\<close>

theorem upload_files_session_id_is_md5_of_no_bytes:
  assumes first: "upload_files env t1 fs1 sm0 = (Inr r1, sm1)"
    and second: "upload_files env t2 fs2 sm1 = (Inr r2, sm2)"
  shows "resp_session_id r1 = md5_hexdigest env [] \<and>
         resp_session_id r2 = md5_hexdigest env [] \<and>
         map_of (sessions sm1) (md5_hexdigest env []) \<noteq> None \<and>
         map_of (files sm1) (md5_hexdigest env []) \<noteq> None \<and>
         (\<exists>fsv dfs2 fs'.
            validate_files env fs2 = Inr fsv \<and>
            create_data_frame_from_files env fsv [] [] = Inr ((data_tables r2, dfs2), fs') \<and>
            map_of (sessions sm2) (md5_hexdigest env []) =
              Some (session_record t2 (md5_hexdigest env []) dfs2 (data_tables r2) ''file'') \<and>
            map_of (files sm2) (md5_hexdigest env []) =
              Some (Pickled (session_record t2 (md5_hexdigest env []) dfs2
                               (data_tables r2) ''file''))) \<and>
         map fst (sessions sm2) = map fst (sessions sm1) \<and>
         map fst (files sm2) = map fst (files sm1)"
proof -
  let ?sid = "md5_hexdigest env []"
  from upload_files_success [OF first] obtain td1 dfs1 where
    r1: "r1 = \<lparr>resp_session_id = ?sid, total_tables = length td1, data_tables = td1\<rparr>"
    and c1: "create_session t1 ?sid dfs1 td1 ''file'' sm0 = Inr (?sid, sm1)" by blast
  from upload_files_success [OF second] obtain fsv td2 dfs2 fs' where
    v2: "validate_files env fs2 = Inr fsv"
    and d2: "create_data_frame_from_files env fsv [] [] = Inr ((td2, dfs2), fs')"
    and r2: "r2 = \<lparr>resp_session_id = ?sid, total_tables = length td2, data_tables = td2\<rparr>"
    and c2: "create_session t2 ?sid dfs2 td2 ''file'' sm1 = Inr (?sid, sm2)" by blast
  note s1 = create_session_state [OF c1]
  note s2 = create_session_state [OF c2]
  have k: "map fst (sessions sm2) = map fst (sessions sm1)"
    unfolding s2(5) by (rule update_present_keys [OF s1(1)])
  have f: "map fst (files sm2) = map fst (files sm1)"
    unfolding s2(6) by (rule update_present_keys [OF s1(2)])
  have b: "\<exists>fsv dfs2 fs'.
            validate_files env fs2 = Inr fsv \<and>
            create_data_frame_from_files env fsv [] [] = Inr ((data_tables r2, dfs2), fs') \<and>
            map_of (sessions sm2) ?sid =
              Some (session_record t2 ?sid dfs2 (data_tables r2) ''file'') \<and>
            map_of (files sm2) ?sid =
              Some (Pickled (session_record t2 ?sid dfs2 (data_tables r2) ''file''))"
    using v2 d2 s2(1,2) r2 by auto
  show ?thesis using r1 r2 s1(1,2) b k f by simp
qed

text \<open>
  C7, an instance: two uploads of one file each, with the contents \<open>a,b\<close> and \<open>c,d,e\<close>, both
  answered with the session id \<open>md5()\<close>.
\<close>

theorem upload_files_session_id_is_md5_of_no_bytes_witness:
  "\<exists>r1 sm1 r2 sm2.
     upload_files sample_env 1 [file_one] empty_manager = (Inr r1, sm1) \<and>
     upload_files sample_env 2 [file_two] sm1 = (Inr r2, sm2) \<and>
     content file_one \<noteq> content file_two \<and>
     resp_session_id r1 = ''md5()'' \<and> resp_session_id r2 = ''md5()'' \<and>
     map fst (sessions sm2) = map fst (sessions sm1) \<and>
     map fst (files sm2) = map fst (files sm1)"
proof -
  let ?td1 = "[(''one'', make_table_data ''one'' \<lparr>columns = [''a,b''], rows = []\<rparr>)]"
  let ?sd1 = "session_record 1 ''md5()'' [(''one'', \<lparr>columns = [''a,b''], rows = []\<rparr>)] ?td1 ''file''"
  let ?sm1 = "empty_manager\<lparr>files := [(''md5()'', Pickled ?sd1)],
                             sessions := [(''md5()'', ?sd1)]\<rparr>"
  let ?td2 = "[(''two'', make_table_data ''two'' \<lparr>columns = [''c,d,e''], rows = []\<rparr>)]"
  let ?sd2 = "session_record 2 ''md5()'' [(''two'', \<lparr>columns = [''c,d,e''], rows = []\<rparr>)] ?td2 ''file''"
  let ?sm2 = "empty_manager\<lparr>files := [(''md5()'', Pickled ?sd2)],
                             sessions := [(''md5()'', ?sd2)]\<rparr>"
  have h1: "upload_files sample_env 1 [file_one] empty_manager =
              (Inr \<lparr>resp_session_id = ''md5()'', total_tables = 1, data_tables = ?td1\<rparr>, ?sm1)"
    by (simp add: upload_defs file_one_def empty_manager_def)
  have h2: "upload_files sample_env 2 [file_two] ?sm1 =
              (Inr \<lparr>resp_session_id = ''md5()'', total_tables = 1, data_tables = ?td2\<rparr>, ?sm2)"
    by (simp add: upload_defs file_two_def empty_manager_def)
  have m: "md5_hexdigest sample_env [] = ''md5()''" by (simp add: sample_env_def)
  have n: "content file_one \<noteq> content file_two" by (simp add: file_one_def file_two_def)
  from upload_files_session_id_is_md5_of_no_bytes [OF h1 h2] h1 h2 m n show ?thesis by simp
qed

section \<open>Empty inputs\<close>

text \<open>
  C10, as the code has it. \<^verbatim>\<open>create_graph_api\<close> given no table raises \<^verbatim>\<open>IndexError\<close>,
  whatever the rules; given no rule and at least one table it returns the empty list. The
  empty inputs are refused by the request handler \<^verbatim>\<open>create_graph_data\<close>: for a session that
  is held in memory and still valid, it answers 400 "Graph configuration list is empty" to
  an empty list of rules when the session has tables, and 404 "No data found for this
  session" when the session has no table, in both cases leaving manager and store as they
  were.
\<close>

theorem create_graph_api_empty_inputs:
  assumes held: "map_of (sessions sm) sid = Some sd"
    and valid: "now - created_at sd \<le> session_timeout sm"
    and tables: "dataframes sd = Some dfs"
  shows "create_graph_api sha1 repr join_right collect graph_config_list [] = Inl IndexError \<and>
         (dfs \<noteq> [] \<longrightarrow>
            create_graph_api sha1 repr join_right collect [] dfs = Inr [] \<and>
            graph_builder_create_graph_data sha1 repr join_right collect run now sid []
                limit sm store =
              (Inl (HTTPException 400 (Lit ''Graph configuration list is empty'')), sm, store)) \<and>
         (dfs = [] \<longrightarrow>
            graph_builder_create_graph_data sha1 repr join_right collect run now sid
                graph_config_list limit sm store =
              (Inl (HTTPException 404 (Lit ''No data found for this session'')), sm, store))"
proof -
  have g: "get_session now sid sm = (Some sd, sm)"
    using held valid by (simp add: get_session_def)
  have i: "get_session_info now sid sm = (Some (sd\<lparr>dataframes := None\<rparr>), sm)"
    by (simp add: get_session_info_def g)
  have d: "get_dataframes now sid sm = (Some dfs, sm)"
    by (simp add: get_dataframes_def g tables)
  have z: "create_graph_api sha1 repr join_right collect graph_config_list [] = Inl IndexError"
    by (simp add: create_graph_api_def)
  have r: "create_graph_api sha1 repr join_right collect [] dfs = Inr []" if "dfs \<noteq> []"
    using that by (cases dfs) (simp_all add: create_graph_api_def)
  show ?thesis
    using z r by (simp add: graph_builder_create_graph_data_def i d)
qed

text \<open>
  C10, an instance: no rule for the session holding the table \<open>people\<close>, and one rule for a
  session holding no table.
\<close>

theorem create_graph_api_empty_inputs_witness:
  "create_graph_api (\<lambda>s. s) (\<lambda>d. concat (map fst d)) (\<lambda>a b k. Inr b) Inr []
       [(''people'', people)] = Inr [] \<and>
   graph_builder_create_graph_data (\<lambda>s. s) (\<lambda>d. concat (map fst d)) (\<lambda>a b k. Inr b) Inr
       counting_store_run 10 ''s1'' [] None manager_people 0 =
     (Inl (HTTPException 400 (Lit ''Graph configuration list is empty'')),
      manager_people, 0) \<and>
   graph_builder_create_graph_data (\<lambda>s. s) (\<lambda>d. concat (map fst d)) (\<lambda>a b k. Inr b) Inr
       counting_store_run 10 ''s0'' [rule_lives_in] None manager_no_tables 0 =
     (Inl (HTTPException 404 (Lit ''No data found for this session'')),
      manager_no_tables, 0)"
proof -
  have a: "map_of (sessions manager_people) ''s1'' = Some people_session"
    "10 - created_at people_session \<le> session_timeout manager_people"
    "dataframes people_session = Some [(''people'', people)]"
    by (simp_all add: manager_people_def people_session_def)
  have b: "map_of (sessions manager_no_tables) ''s0'' = Some empty_session"
    "10 - created_at empty_session \<le> session_timeout manager_no_tables"
    "dataframes empty_session = Some []"
    by (simp_all add: manager_no_tables_def empty_session_def)
  from create_graph_api_empty_inputs [OF a, of "\<lambda>s. s" "\<lambda>d. concat (map fst d)" "\<lambda>a b k. Inr b" Inr "[]"
              counting_store_run None 0]
       create_graph_api_empty_inputs [OF b, of "\<lambda>s. s" "\<lambda>d. concat (map fst d)" "\<lambda>a b k. Inr b" Inr "[rule_lives_in]"
              counting_store_run None 0]
  show ?thesis by simp
qed

text \<open>
  C10 as stated fails: \<^verbatim>\<open>create_graph_api\<close> given no rule and the single table \<open>people\<close>
  succeeds with the empty list of edges.
\<close>

theorem create_graph_api_no_rules_succeeds:
  "\<forall>sha1 repr join_right collect.
     create_graph_api sha1 repr join_right collect [] [(''people'', people)] = Inr []"
  by (simp add: create_graph_api_def)

end
